theory Spec2Isabelle
  imports Complex_Main "HOL-Library.Sublist"
begin

section \<open>Python values used by the scrapers\<close>

text \<open>
  The repository consists of three scraping flows written in Python:
  \<^verbatim>\<open>search_responses.py\<close> (location resolution), \<^verbatim>\<open>scrape_search.py\<close> (search pagination)
  and \<^verbatim>\<open>scrape_reviews.py\<close> (hotel page extraction and review pagination).
  Every exception the code can raise on the modelled paths is a value of \<open>py_error\<close>;
  a computation that may raise has the type \<open>py_error + 'a\<close>, with \<open>Inl\<close> the exception.
  Strings are lists of characters with code points below 256.
\<close>

datatype py_error =
    AssertionError
  | IndexError
  | KeyError
  | TypeError
  | AttributeError
  | ValueError
  | ZeroDivisionError
  | OverflowError
  | JSONDecodeError

definition bind :: "py_error + 'a \<Rightarrow> ('a \<Rightarrow> py_error + 'b) \<Rightarrow> py_error + 'b" where
  "bind m f = (case m of Inl e \<Rightarrow> Inl e | Inr x \<Rightarrow> f x)"

text \<open>\<^verbatim>\<open>xs[0]\<close> and \<^verbatim>\<open>xs[-1]\<close> on a Python list: \<^verbatim>\<open>IndexError\<close> when it is empty.\<close>

definition py_first :: "'a list \<Rightarrow> py_error + 'a" where
  "py_first xs = (case xs of [] \<Rightarrow> Inl IndexError | x # _ \<Rightarrow> Inr x)"

definition py_last :: "'a list \<Rightarrow> py_error + 'a" where
  "py_last xs = (case rev xs of [] \<Rightarrow> Inl IndexError | x # _ \<Rightarrow> Inr x)"

text \<open>\<^verbatim>\<open>xs[1]\<close>: the second element, \<^verbatim>\<open>IndexError\<close> when there are fewer than two.\<close>

definition py_second :: "'a list \<Rightarrow> py_error + 'a" where
  "py_second xs = (case xs of _ # y # _ \<Rightarrow> Inr y | _ \<Rightarrow> Inl IndexError)"

text \<open>\<^verbatim>\<open>range(a, b)\<close>, the integers from \<open>a\<close> up to but excluding \<open>b\<close>.\<close>

definition py_range :: "int \<Rightarrow> int \<Rightarrow> int list" where
  "py_range a b = [a..b - 1]"

subsection \<open>String methods\<close>

text \<open>\<^verbatim>\<open>old in s\<close>: \<open>old\<close> occurs in \<open>s\<close> as a contiguous substring.\<close>

fun occurs :: "string \<Rightarrow> string \<Rightarrow> bool" where
  "occurs old [] = (old = [])"
| "occurs old (c # cs) = (prefix old (c # cs) \<or> occurs old cs)"

text \<open>
  \<^verbatim>\<open>s.replace(old, new)\<close>: every non-overlapping occurrence of \<open>old\<close>, found from the left,
  is replaced. For the empty \<open>old\<close> Python inserts \<open>new\<close> before every character and at
  the end.
\<close>

function py_replace :: "string \<Rightarrow> string \<Rightarrow> string \<Rightarrow> string" where
  "py_replace [] old new = (if old = [] then new else [])"
| "py_replace (c # cs) old new =
     (if old = [] then new @ c # py_replace cs old new
      else if prefix old (c # cs)
        then new @ py_replace (drop (length old) (c # cs)) old new
        else c # py_replace cs old new)"
  by pat_completeness auto
termination
  by (relation "measure (\<lambda>(s, old, new). length s)") auto

text \<open>
  \<^verbatim>\<open>str.strip()\<close> with no argument removes leading and trailing whitespace. Below code
  point 256 Python's whitespace characters are 9 to 13, 28 to 32, 133 and 160.
\<close>

definition py_isspace :: "char \<Rightarrow> bool" where
  "py_isspace c =
     (let n = (of_char c :: nat)
      in (9 \<le> n \<and> n \<le> 13) \<or> (28 \<le> n \<and> n \<le> 32) \<or> n = 133 \<or> n = 160)"

definition py_strip :: "string \<Rightarrow> string" where
  "py_strip s = rev (dropWhile py_isspace (rev (dropWhile py_isspace s)))"

text \<open>
  \<^verbatim>\<open>s.split(sep)\<close>: the pieces between the non-overlapping occurrences of \<open>sep\<close>, found
  from the left; \<^verbatim>\<open>ValueError\<close> for the empty separator. \<open>cur\<close> is the piece being read.
\<close>

function py_split_from :: "string \<Rightarrow> string \<Rightarrow> string \<Rightarrow> string list" where
  "py_split_from sep cur [] = [cur]"
| "py_split_from sep cur (c # cs) =
     (if sep \<noteq> [] \<and> prefix sep (c # cs)
        then cur # py_split_from sep [] (drop (length sep) (c # cs))
        else py_split_from sep (cur @ [c]) cs)"
  by pat_completeness auto
termination
  by (relation "measure (\<lambda>(sep, cur, s). length s)") auto

definition py_split :: "string \<Rightarrow> string \<Rightarrow> py_error + string list" where
  "py_split s sep = (if sep = [] then Inl ValueError else Inr (py_split_from sep [] s))"

text \<open>
  \<^verbatim>\<open>re.sub(r'<[^>]+>', '', text)\<close>. At a \<^verbatim>\<open><\<close> the pattern matches when the next character
  exists and is not \<^verbatim>\<open>>\<close> and a \<^verbatim>\<open>>\<close> follows later; the greedy class then ends at the
  first \<^verbatim>\<open>>\<close>. The match is deleted and the scan goes on behind it.
\<close>

function re_sub_tags :: "string \<Rightarrow> string" where
  "re_sub_tags [] = []"
| "re_sub_tags [c] = [c]"
| "re_sub_tags (c # d # ds) =
     (if c = CHR ''<'' \<and> d \<noteq> CHR ''>'' \<and> CHR ''>'' \<in> set ds
        then re_sub_tags (tl (dropWhile (\<lambda>x. x \<noteq> CHR ''>'') ds))
        else c # re_sub_tags (d # ds))"
  by pat_completeness auto
termination
proof (relation "measure length")
  fix c d :: char and ds :: string
  have "length (tl (dropWhile (\<lambda>x. x \<noteq> CHR ''>'') ds)) \<le> length ds"
    using length_dropWhile_le [of "\<lambda>x. x \<noteq> CHR ''>''" ds] by simp
  then show "(tl (dropWhile (\<lambda>x. x \<noteq> CHR ''>'') ds), c # d # ds) \<in> measure length"
    by simp
qed simp_all

subsection \<open>Integers and their decimal text\<close>

definition digit_char :: "nat \<Rightarrow> char" where
  "digit_char d = ''0123456789'' ! d"

fun dec :: "nat \<Rightarrow> string" where
  "dec n = (if n < 10 then [digit_char n] else dec (n div 10) @ [digit_char (n mod 10)])"

declare dec.simps [simp del]

text \<open>
  \<^verbatim>\<open>str(n)\<close>, which is what an f-string writes for an integer of at most 4300 digits;
  the offsets of a run are far smaller.
\<close>

definition py_str :: "int \<Rightarrow> string" where
  "py_str n = (if n < 0 then CHR ''-'' # dec (nat (- n)) else dec (nat n))"

definition is_digit :: "char \<Rightarrow> bool" where
  "is_digit c = (let n = (of_char c :: nat) in 48 \<le> n \<and> n \<le> 57)"

definition digit_val :: "char \<Rightarrow> nat" where
  "digit_val c = of_char c - 48"

text \<open>
  \<^verbatim>\<open>int(s)\<close> for a string. The whitespace it drops around the number is narrower than
  that of \<^verbatim>\<open>strip\<close>: below code point 256 it is 9 to 13, 32, 133 and 160, while the
  separators 28 to 31 make the string invalid. One sign is allowed, then decimal
  digits, where single underscores may stand between two digits. A string with more
  than 4300 digits is refused (the default of \<^verbatim>\<open>sys.set_int_max_str_digits\<close>). Every
  failure is a \<^verbatim>\<open>ValueError\<close>. \<open>acc\<close> is the value of the digits read so far.
\<close>

definition int_isspace :: "char \<Rightarrow> bool" where
  "int_isspace c =
     (let n = (of_char c :: nat)
      in (9 \<le> n \<and> n \<le> 13) \<or> n = 32 \<or> n = 133 \<or> n = 160)"

definition int_strip :: "string \<Rightarrow> string" where
  "int_strip s = rev (dropWhile int_isspace (rev (dropWhile int_isspace s)))"

fun int_digits :: "int \<Rightarrow> string \<Rightarrow> py_error + int" where
  "int_digits acc [] = Inr acc"
| "int_digits acc [c] =
     (if is_digit c then Inr (10 * acc + int (digit_val c)) else Inl ValueError)"
| "int_digits acc (c # d # ds) =
     (if is_digit c then int_digits (10 * acc + int (digit_val c)) (d # ds)
      else if c = CHR ''_'' \<and> is_digit d then int_digits (10 * acc + int (digit_val d)) ds
      else Inl ValueError)"

definition int_literal :: "string \<Rightarrow> py_error + int" where
  "int_literal s =
     (case s of [] \<Rightarrow> Inl ValueError
      | c # cs \<Rightarrow> if is_digit c then int_digits (int (digit_val c)) cs else Inl ValueError)"

definition py_int_str :: "string \<Rightarrow> py_error + int" where
  "py_int_str s =
     (if 4300 < int (length (filter is_digit s)) then Inl ValueError
      else case int_strip s of [] \<Rightarrow> Inl ValueError
        | c # cs \<Rightarrow>
            if c = CHR ''-'' then bind (int_literal cs) (\<lambda>n. Inr (- n))
            else if c = CHR ''+'' then int_literal cs
            else int_literal (c # cs))"

subsection \<open>True division and \<^verbatim>\<open>math.ceil\<close>\<close>

text \<open>
  \<^verbatim>\<open>a / b\<close> on two Python integers is the IEEE 754 double nearest to the exact quotient
  (ties to the even significand), \<^verbatim>\<open>ZeroDivisionError\<close> for \<open>b = 0\<close> and
  \<^verbatim>\<open>OverflowError\<close> when the rounded quotient is \<open>2 ^ 1024\<close> or more. A finite double is
  kept as a pair \<open>(m, u)\<close> that stands for \<open>m * 2 ^ u\<close>, with \<open>\<bar>m\<bar> \<le> 2 ^ 53\<close> and
  \<open>- 1074 \<le> u\<close>.
\<close>

type_synonym pyfloat = "int \<times> int"

text \<open>\<^verbatim>\<open>n.bit_length()\<close> for a natural number \<open>n\<close>.\<close>

function bit_length :: "int \<Rightarrow> int" where
  "bit_length n = (if n \<le> 0 then 0 else 1 + bit_length (n div 2))"
  by pat_completeness auto
termination
  by (relation "measure nat") auto

declare bit_length.simps [simp del]

text \<open>\<open>n / d\<close> rounded to the nearest integer, a tie going to the even one (\<open>0 \<le> n\<close>, \<open>0 < d\<close>).\<close>

definition rne_div :: "int \<Rightarrow> int \<Rightarrow> int" where
  "rne_div n d =
     (let q = n div d; r = n mod d
      in if 2 * r < d then q
         else if d < 2 * r then q + 1
         else if even q then q else q + 1)"

text \<open>
  The binary exponent \<open>e\<close> of a positive quotient, \<open>2 ^ e \<le> a / b < 2 ^ (e + 1)\<close>:
  the difference of the bit lengths or one less.
\<close>

definition quotient_exponent :: "int \<Rightarrow> int \<Rightarrow> int" where
  "quotient_exponent a b =
     (let d = bit_length a - bit_length b
      in if b * 2 ^ nat d \<le> a * 2 ^ nat (- d) then d else d - 1)"

text \<open>
  The double nearest to \<open>a / b\<close> for positive \<open>a\<close> and \<open>b\<close>. The last place \<open>u\<close> is 52
  binary places below the exponent, but not below \<open>- 1074\<close> (subnormal numbers).
\<close>

definition nearest_double :: "int \<Rightarrow> int \<Rightarrow> py_error + pyfloat" where
  "nearest_double a b =
     (let u = max (quotient_exponent a b - 52) (- 1074);
          m = rne_div (a * 2 ^ nat (- u)) (b * 2 ^ nat u)
      in if 971 < u \<or> (u = 971 \<and> 2 ^ 53 \<le> m) then Inl OverflowError else Inr (m, u))"

definition py_truediv :: "int \<Rightarrow> int \<Rightarrow> py_error + pyfloat" where
  "py_truediv a b =
     (if b = 0 then Inl ZeroDivisionError
      else if a = 0 then Inr (0, 0)
      else bind (nearest_double \<bar>a\<bar> \<bar>b\<bar>)
             (\<lambda>(m, u). Inr (if (a < 0) = (b < 0) then m else - m, u)))"

text \<open>\<^verbatim>\<open>math.ceil(x)\<close> of a finite double, an exact integer.\<close>

definition math_ceil :: "pyfloat \<Rightarrow> int" where
  "math_ceil x =
     (case x of (m, u) \<Rightarrow> if 0 \<le> u then m * 2 ^ nat u else - ((- m) div 2 ^ nat (- u)))"

text \<open>\<^verbatim>\<open>int(x)\<close> of a finite double truncates towards zero.\<close>

definition float_trunc :: "pyfloat \<Rightarrow> int" where
  "float_trunc x =
     (case x of (m, u) \<Rightarrow>
        if 0 \<le> u then m * 2 ^ nat u
        else if 0 \<le> m then m div 2 ^ nat (- u) else - ((- m) div 2 ^ nat (- u)))"

section \<open>The transport and the pages it returns\<close>

text \<open>
  The scrapers read a page only through \<^verbatim>\<open>parsel\<close> selectors, so a page is modelled by
  what each selector of the source returns on it. A response carries the status code,
  the URL it was fetched from and the page. Every request a scraper issues is recorded
  in order, so that the number of fetches can be stated. Exceptions of the HTTP client
  itself (timeouts, connection errors) are outside the model: a request always gets a
  response.
\<close>

datatype request = GET string | POST string

record 'p response =
  status_code :: int
  response_url :: string
  body :: 'p

definition graphql_url :: string where
  "graphql_url = ''https://www.tripadvisor.com/data/graphql/ids''"

section \<open>Location resolver (\<^verbatim>\<open>search_responses.py\<close>)\<close>

text \<open>The \<^verbatim>\<open>LocationData\<close> dictionary of the source.\<close>

record location_data =
  localizedName :: string
  location_url :: string
  HOTELS_URL :: string
  ATTRACTIONS_URL :: string
  RESTAURANTS_URL :: string
  placeType :: string
  latitude :: pyfloat
  longitude :: pyfloat

text \<open>
  One entry \<open>r\<close> of the \<^verbatim>\<open>results\<close> array of the reply. \<open>details\<close> is \<^verbatim>\<open>r.get("details")\<close>,
  with \<open>None\<close> when the key is missing or its value is falsy, which is when the source
  drops the entry.
\<close>

record candidate =
  details :: "location_data option"

text \<open>The loop of \<^verbatim>\<open>scrape_location_data\<close> that fills \<^verbatim>\<open>sanitized_results\<close>.\<close>

fun sanitize :: "candidate list \<Rightarrow> location_data list \<Rightarrow> location_data list" where
  "sanitize [] sanitized_results = sanitized_results"
| "sanitize (r # results) sanitized_results =
     (case details r of
        Some d \<Rightarrow> sanitize results (sanitized_results @ [d])
      | None \<Rightarrow> sanitize results sanitized_results)"

text \<open>
  \<open>post query\<close> is the outcome of posting the payload for \<open>query\<close> and reading
  \<^verbatim>\<open>data[0]["data"]["Typeahead_autocomplete"]["results"]\<close> from the decoded reply.
\<close>

definition scrape_location_data ::
  "(string \<Rightarrow> py_error + candidate list) \<Rightarrow> string \<Rightarrow> py_error + location_data list" where
  "scrape_location_data post query = bind (post query) (\<lambda>results. Inr (sanitize results []))"

section \<open>Search paginator (\<^verbatim>\<open>scrape_search.py\<close>)\<close>

record preview =
  url :: string
  name :: string

text \<open>
  A \<^verbatim>\<open>span.listItem\<close> box: the text nodes of its card title link (\<^verbatim>\<open>getall()\<close>) and
  the link's \<^verbatim>\<open>href\<close> (\<^verbatim>\<open>get()\<close>).
\<close>

record list_item =
  card_title_texts :: "string list"
  card_title_href :: "string option"

text \<open>A \<^verbatim>\<open>div.listing_title>a\<close> link: its \<^verbatim>\<open>@href\<close> and its first text node.\<close>

record listing_link =
  link_href :: "string option"
  link_text :: "string option"

text \<open>
  A search page: the boxes of both layouts, the captures of
  \<^verbatim>\<open>selector.xpath("//span/text()").re(r"(\d*\,*\d+) properties")\<close> and the \<^verbatim>\<open>href\<close> of
  the link labelled \<^verbatim>\<open>Next page\<close>.
\<close>

record search_page =
  list_items :: "list_item list"
  listing_links :: "listing_link list"
  properties_counts :: "string list"
  next_page_href :: "string option"

text \<open>
  What the search scraper gets from outside: the reply of the location endpoint; the
  page answered to the \<open>n\<close>-th \<^verbatim>\<open>GET\<close> of a run; for the \<open>i\<close>-th follow-up URL the rank
  \<open>start_key\<close> by which its request is started and the time \<open>latency\<close> at which it
  completes; and \<^verbatim>\<open>urllib.parse.urljoin\<close>, whose second argument is \<open>None\<close> when the
  selector found no \<^verbatim>\<open>href\<close> and which raises \<^verbatim>\<open>ValueError\<close> on a link it cannot split.
\<close>

record search_env =
  post_location :: "string \<Rightarrow> py_error + candidate list"
  get_page :: "nat \<Rightarrow> string \<Rightarrow> search_page response"
  start_key :: "nat \<Rightarrow> nat"
  latency :: "nat \<Rightarrow> nat"
  urljoin :: "string \<Rightarrow> string option \<Rightarrow> py_error + string"

text \<open>The first loop of \<^verbatim>\<open>parse_search_page\<close>, over the boxes of location 1.\<close>

fun location1 ::
  "(string \<Rightarrow> string option \<Rightarrow> py_error + string) \<Rightarrow> string \<Rightarrow> list_item list \<Rightarrow> preview list
     \<Rightarrow> py_error + preview list" where
  "location1 join base [] parsed = Inr parsed"
| "location1 join base (box # boxes) parsed =
     bind (py_second (card_title_texts box))
       (\<lambda>title. bind (join base (card_title_href box))
          (\<lambda>absolute. location1 join base boxes
             (parsed @ [\<lparr>url = absolute, name = title\<rparr>])))"

text \<open>The second loop, over the links of location 2.\<close>

fun location2 ::
  "(string \<Rightarrow> string option \<Rightarrow> py_error + string) \<Rightarrow> string \<Rightarrow> listing_link list \<Rightarrow> preview list
     \<Rightarrow> py_error + preview list" where
  "location2 join base [] parsed = Inr parsed"
| "location2 join base (box # boxes) parsed =
     bind (join base (link_href box))
       (\<lambda>absolute.
          bind (bind (py_split (case link_text box of None \<Rightarrow> [] | Some t \<Rightarrow> t) ''. '')
                  py_last)
            (\<lambda>last_piece. location2 join base boxes
               (parsed @ [\<lparr>url = absolute, name = last_piece\<rparr>])))"

definition parse_search_page ::
  "(string \<Rightarrow> string option \<Rightarrow> py_error + string) \<Rightarrow> search_page response \<Rightarrow> py_error + preview list" where
  "parse_search_page join response =
     bind (location1 join (response_url response) (list_items (body response)) [])
       (\<lambda>parsed.
          if parsed \<noteq> [] then Inr parsed
          else location2 join (response_url response) (listing_links (body response)) parsed)"

text \<open>
  \<^verbatim>\<open>total_pages\<close> of \<^verbatim>\<open>scrape_search_hotel_urls\<close>: the ceiling of the true quotient, then
  the clamp, which a \<open>max_pages\<close> of \<open>None\<close> or \<open>0\<close> skips (both are falsy).
\<close>

definition search_total_pages :: "int \<Rightarrow> int \<Rightarrow> int option \<Rightarrow> py_error + int" where
  "search_total_pages total_results page_size max_pages =
     bind (py_truediv total_results page_size)
       (\<lambda>quotient.
          let total_pages = math_ceil quotient
          in Inr (case max_pages of
                    None \<Rightarrow> total_pages
                  | Some m \<Rightarrow> if m \<noteq> 0 \<and> m < total_pages then m else total_pages))"

definition other_page_urls :: "string \<Rightarrow> int \<Rightarrow> int \<Rightarrow> string list" where
  "other_page_urls next_page_url page_size total_pages =
     map (\<lambda>i. py_replace next_page_url (''oa'' @ py_str page_size)
                 (''oa'' @ py_str (page_size * i)))
       (py_range 1 total_pages)"

text \<open>
  The loop over \<^verbatim>\<open>asyncio.as_completed\<close>: the responses are parsed in the order they
  arrive and their previews appended; an exception of the parser ends the loop.
\<close>

fun extend_results ::
  "(string \<Rightarrow> string option \<Rightarrow> py_error + string) \<Rightarrow> preview list \<Rightarrow> search_page response list
     \<Rightarrow> py_error + preview list" where
  "extend_results join results [] = Inr results"
| "extend_results join results (response # responses) =
     bind (parse_search_page join response)
       (\<lambda>parsed. extend_results join (results @ parsed) responses)"

text \<open>
  \<^verbatim>\<open>asyncio.as_completed\<close> puts the requests into a set before it starts them, so
  they are started in an order of its own: the indices of the follow-up URLs by
  \<open>start_key\<close>.
\<close>

definition start_order :: "search_env \<Rightarrow> string list \<Rightarrow> nat list" where
  "start_order env urls = sort_key (start_key env) [0..<length urls]"

text \<open>
  The request started as number \<open>k\<close> (from \<open>0\<close>) is \<^verbatim>\<open>GET\<close> number \<open>k + 1\<close> of the run;
  the responses are handed over by completion time.
\<close>

definition as_completed :: "search_env \<Rightarrow> string list \<Rightarrow> search_page response list" where
  "as_completed env urls =
     map snd
       (sort_key (\<lambda>(i, response). latency env i)
          (map (\<lambda>(k, i). (i, get_page env (Suc k) (urls ! i)))
             (enumerate 0 (start_order env urls))))"

text \<open>The part of \<^verbatim>\<open>scrape_search_hotel_urls\<close> behind the status check of the first page.\<close>

definition paginate_search ::
  "search_env \<Rightarrow> string \<Rightarrow> search_page response \<Rightarrow> int option \<Rightarrow> request list
     \<Rightarrow> (py_error + preview list) \<times> request list" where
  "paginate_search env hotel_search_url first_page max_pages sent =
     (case parse_search_page (urljoin env) first_page of
        Inl e \<Rightarrow> (Inl e, sent)
      | Inr results \<Rightarrow>
          if results = [] then (Inr [], sent)
          else
            (let page_size = int (length results)
             in (case bind (py_first (properties_counts (body first_page)))
                        (\<lambda>matched. py_int_str (py_replace matched '','' [])) of
                   Inl e \<Rightarrow> (Inl e, sent)
                 | Inr total_results \<Rightarrow>
                     (case urljoin env hotel_search_url (next_page_href (body first_page)) of
                        Inl e \<Rightarrow> (Inl e, sent)
                      | Inr next_page_url \<Rightarrow>
                          (case search_total_pages total_results page_size max_pages of
                             Inl e \<Rightarrow> (Inl e, sent)
                           | Inr total_pages \<Rightarrow>
                               (let urls = other_page_urls next_page_url page_size total_pages
                                in if card (set urls) \<noteq> length urls
                                   then (Inl AssertionError, sent)
                                   else (extend_results (urljoin env) results
                                           (as_completed env urls),
                                         sent @ map (\<lambda>i. GET (urls ! i))
                                                  (start_order env urls))))))))"

definition scrape_search_hotel_urls ::
  "search_env \<Rightarrow> string \<Rightarrow> int option \<Rightarrow> (py_error + preview list) \<times> request list" where
  "scrape_search_hotel_urls env query max_pages =
     (case bind (scrape_location_data (post_location env) query) py_first of
        Inl e \<Rightarrow> (if e = IndexError then Inr [] else Inl e, [POST graphql_url])
      | Inr location \<Rightarrow>
          let hotel_search_url = ''https://www.tripadvisor.com'' @ HOTELS_URL location;
              first_page = get_page env 0 hotel_search_url;
              sent = [POST graphql_url, GET hotel_search_url]
          in if status_code first_page \<noteq> 200 then (Inr [], sent)
             else paginate_search env hotel_search_url first_page max_pages sent)"

section \<open>Hotel page extractor and review paginator (\<^verbatim>\<open>scrape_reviews.py\<close>)\<close>

text \<open>
  A value decoded by \<^verbatim>\<open>json.loads\<close>. An object keeps its members in the order of the
  text; a repeated key takes its last value, as in the dictionary Python builds.
\<close>

datatype json =
    JNull
  | JBool bool
  | JInt int
  | JFloat pyfloat
  | JStr string
  | JArr "json list"
  | JObj "(string \<times> json) list"

text \<open>\<^verbatim>\<open>value[key]\<close> with a string key.\<close>

definition py_getitem :: "json \<Rightarrow> string \<Rightarrow> py_error + json" where
  "py_getitem j k =
     (case j of
        JObj members \<Rightarrow> (case map_of (rev members) k of None \<Rightarrow> Inl KeyError | Some v \<Rightarrow> Inr v)
      | _ \<Rightarrow> Inl TypeError)"

text \<open>\<^verbatim>\<open>int(value)\<close> on a decoded value.\<close>

definition py_int :: "json \<Rightarrow> py_error + int" where
  "py_int j =
     (case j of
        JInt n \<Rightarrow> Inr n
      | JBool b \<Rightarrow> Inr (if b then 1 else 0)
      | JFloat x \<Rightarrow> Inr (float_trunc x)
      | JStr s \<Rightarrow> py_int_str s
      | _ \<Rightarrow> Inl TypeError)"

text \<open>
  A \<^verbatim>\<open>div[@data-reviewid]\<close> container, by the four relative selectors of the source:
  the title text, the serialised body \<^verbatim>\<open>span\<close>, the \<^verbatim>\<open>title\<close> of the rating icon and the
  first text node of the \<^verbatim>\<open>Date of stay\<close> span. Each is \<open>None\<close> when \<^verbatim>\<open>get()\<close> finds no node.
\<close>

record review_node =
  title_text :: "string option"
  body_html :: "string option"
  rating_title :: "string option"
  stay_date_text :: "string option"

text \<open>A review as the source stores it; \<open>review_text\<close> is its \<^verbatim>\<open>text\<close> entry.\<close>

record review =
  title :: "string option"
  review_text :: string
  rate :: "string option"
  tripDate :: string

text \<open>
  A hotel page. \<open>aggregate_script\<close> is the text of the script that mentions
  \<^verbatim>\<open>aggregateRating\<close> as \<^verbatim>\<open>json.loads\<close> decodes it: \<open>None\<close> without such a script,
  \<open>Some (Inl JSONDecodeError)\<close> when its text is not JSON.
\<close>

record hotel_page =
  aggregate_script :: "(py_error + json) option"
  description_text :: "string option"
  amenity_texts :: "string list"
  review_nodes :: "review_node list"

text \<open>
  The body of the loop over the review containers, in the order of the source:
  \<^verbatim>\<open>re.sub\<close> on a missing body raises \<^verbatim>\<open>TypeError\<close>, the rating is guarded by
  \<^verbatim>\<open>if rate\<close>, and \<^verbatim>\<open>.get().strip()\<close> on a missing date raises \<^verbatim>\<open>AttributeError\<close>.
\<close>

definition parse_review :: "review_node \<Rightarrow> py_error + review" where
  "parse_review node =
     bind (case body_html node of
             None \<Rightarrow> Inl TypeError
           | Some html \<Rightarrow> Inr (py_strip (re_sub_tags html)))
       (\<lambda>text'.
          bind (case rating_title node of
                  None \<Rightarrow> Inr None
                | Some r \<Rightarrow>
                    if r = [] then Inr None
                    else bind (bind (py_split r ''.'') py_first) (\<lambda>piece. Inr (Some piece)))
            (\<lambda>rate'.
               bind (case stay_date_text node of
                       None \<Rightarrow> Inl AttributeError
                     | Some d \<Rightarrow> Inr (py_strip d))
                 (\<lambda>trip_data.
                    Inr \<lparr>title = title_text node, review_text = text', rate = rate',
                         tripDate = trip_data\<rparr>)))"

fun parse_reviews :: "review_node list \<Rightarrow> review list \<Rightarrow> py_error + review list" where
  "parse_reviews [] reviews = Inr reviews"
| "parse_reviews (node # nodes) reviews =
     bind (parse_review node) (\<lambda>r. parse_reviews nodes (reviews @ [r]))"

text \<open>The dictionary \<^verbatim>\<open>parse_hotel_page\<close> returns, with the key \<^verbatim>\<open>featues\<close> as the source spells it.\<close>

record hotel_data =
  basic_data :: json
  description :: "string option"
  featues :: "string list"
  reviews :: "review list"

definition parse_hotel_page :: "hotel_page response \<Rightarrow> py_error + hotel_data" where
  "parse_hotel_page result =
     bind (case aggregate_script (body result) of None \<Rightarrow> Inl TypeError | Some decoded \<Rightarrow> decoded)
       (\<lambda>basic.
          bind (parse_reviews (review_nodes (body result)) [])
            (\<lambda>rs. Inr \<lparr>basic_data = basic,
                        description = description_text (body result),
                        featues = amenity_texts (body result),
                        reviews = rs\<rparr>))"

text \<open>
  \<^verbatim>\<open>total_review_pages\<close> of \<^verbatim>\<open>scrape_hotel_reviews\<close>, with the page size \<open>10\<close> of the
  source and the same falsy guard on \<open>max_review_pages\<close>.
\<close>

definition review_total_pages :: "int \<Rightarrow> int option \<Rightarrow> py_error + int" where
  "review_total_pages total_reviews max_review_pages =
     bind (py_truediv total_reviews 10)
       (\<lambda>quotient.
          let total_review_pages = math_ceil quotient
          in Inr (case max_review_pages of
                    None \<Rightarrow> total_review_pages
                  | Some m \<Rightarrow> if m \<noteq> 0 \<and> m < total_review_pages then m
                              else total_review_pages))"

definition review_urls :: "string \<Rightarrow> int \<Rightarrow> string list" where
  "review_urls hotel_url total_review_pages =
     map (\<lambda>i. py_replace hotel_url ''-Reviews-'' (''-Reviews-or'' @ py_str (10 * i) @ ''-''))
       (py_range 1 total_review_pages)"

text \<open>The loop that merges the reviews of the gathered responses, in the order of the URLs.\<close>

fun extend_reviews :: "hotel_data \<Rightarrow> hotel_page response list \<Rightarrow> py_error + hotel_data" where
  "extend_reviews hotel [] = Inr hotel"
| "extend_reviews hotel (response # responses) =
     bind (parse_hotel_page response)
       (\<lambda>data. extend_reviews (hotel\<lparr>reviews := reviews hotel @ reviews data\<rparr>) responses)"

text \<open>\<^verbatim>\<open>asyncio.gather\<close>: every URL is requested, the \<open>i\<close>-th (from \<open>0\<close>) as \<^verbatim>\<open>GET\<close> number \<open>i + 1\<close>.\<close>

definition gather ::
  "(nat \<Rightarrow> string \<Rightarrow> hotel_page response) \<Rightarrow> string list \<Rightarrow> hotel_page response list" where
  "gather get urls = map (\<lambda>i. get (Suc i) (urls ! i)) [0..<length urls]"

text \<open>\<^verbatim>\<open>int(hotel_data["basic_data"]["aggregateRating"]["reviewCount"])\<close>.\<close>

definition total_reviews_of :: "hotel_data \<Rightarrow> py_error + int" where
  "total_reviews_of hotel =
     bind (bind (py_getitem (basic_data hotel) ''aggregateRating'')
             (\<lambda>rating. py_getitem rating ''reviewCount'')) py_int"

text \<open>\<open>get n u\<close> is the response to the \<open>n\<close>-th \<^verbatim>\<open>GET\<close> of the run, sent to \<open>u\<close>.\<close>

definition scrape_hotel_reviews ::
  "(nat \<Rightarrow> string \<Rightarrow> hotel_page response) \<Rightarrow> string \<Rightarrow> int option
     \<Rightarrow> (py_error + hotel_data) \<times> request list" where
  "scrape_hotel_reviews get hotel_url max_review_pages =
     (let first_page = get 0 hotel_url; sent = [GET hotel_url]
      in if status_code first_page \<noteq> 200 then (Inl AssertionError, sent)
         else
           case parse_hotel_page first_page of
             Inl e \<Rightarrow> (Inl e, sent)
           | Inr hotel \<Rightarrow>
             (case bind (total_reviews_of hotel)
                     (\<lambda>total_reviews. review_total_pages total_reviews max_review_pages) of
                Inl e \<Rightarrow> (Inl e, sent)
              | Inr total_review_pages \<Rightarrow>
                  let urls = review_urls hotel_url total_review_pages
                  in (extend_reviews hotel (gather get urls), sent @ map GET urls)))"

section \<open>The specification's notions\<close>

text \<open>
  The ceiling of the exact quotient, which the specification writes
  \<^verbatim>\<open>ceil(totalResults / pageSize)\<close>.
\<close>

definition exact_ceil :: "int \<Rightarrow> int \<Rightarrow> int" where
  "exact_ceil a b = \<lceil>rat_of_int a / rat_of_int b\<rceil>"

text \<open>The clamp as the specification words it, for a limit of at least one page.\<close>

definition clamp_pages :: "int \<Rightarrow> int option \<Rightarrow> int" where
  "clamp_pages pages max_pages =
     (case max_pages of None \<Rightarrow> pages | Some m \<Rightarrow> if m < pages then m else pages)"

text \<open>The \<^verbatim>\<open>GET\<close> requests of a run.\<close>

fun is_GET :: "request \<Rightarrow> bool" where
  "is_GET (GET u) = True"
| "is_GET (POST u) = False"

definition fetches :: "request list \<Rightarrow> nat" where
  "fetches sent = length (filter is_GET sent)"

text \<open>
  The two selector strategies of the search page, each on its own, for a page whose
  links all have an absolute URL, given by \<open>absolute\<close>: the primary one makes a preview
  of every \<^verbatim>\<open>span.listItem\<close> box, named by the second text node of its title link; the
  secondary one makes a preview of every \<^verbatim>\<open>div.listing_title>a\<close> link, named by what
  follows the last \<^verbatim>\<open>". "\<close> of its text.
\<close>

definition primary_strategy ::
  "(string option \<Rightarrow> string) \<Rightarrow> search_page response \<Rightarrow> preview list" where
  "primary_strategy absolute response =
     map (\<lambda>box. \<lparr>url = absolute (card_title_href box), name = card_title_texts box ! 1\<rparr>)
       (list_items (body response))"

definition secondary_strategy ::
  "(string option \<Rightarrow> string) \<Rightarrow> search_page response \<Rightarrow> preview list" where
  "secondary_strategy absolute response =
     map (\<lambda>box. \<lparr>url = absolute (link_href box),
                  name = last (py_split_from ''. '' []
                                 (case link_text box of None \<Rightarrow> [] | Some t \<Rightarrow> t))\<rparr>)
       (listing_links (body response))"

definition first_non_empty :: "'a list \<Rightarrow> 'a list \<Rightarrow> 'a list" where
  "first_non_empty xs ys = (if xs \<noteq> [] then xs else ys)"

section \<open>Example pages\<close>

definition goa :: location_data where
  "goa = \<lparr>localizedName = ''Goa'', location_url = ''/Tourism-g297604-Goa.html'',
          HOTELS_URL = ''/Hotels-g297604-Goa.html'',
          ATTRACTIONS_URL = ''/Attractions-g297604-Goa.html'',
          RESTAURANTS_URL = ''/Restaurants-g297604-Goa.html'',
          placeType = ''STATE'', latitude = (15, 0), longitude = (74, 0)\<rparr>"

text \<open>
  A stand-in for \<^verbatim>\<open>urljoin\<close> that is right for a missing link, for the root-relative
  links of the site and for the link \<^verbatim>\<open>//[\<close>, on which \<^verbatim>\<open>urljoin\<close> raises \<^verbatim>\<open>ValueError\<close>
  (invalid IPv6 URL).
\<close>

definition site_join :: "string \<Rightarrow> string option \<Rightarrow> py_error + string" where
  "site_join base link =
     (case link of
        None \<Rightarrow> Inr base
      | Some h \<Rightarrow> if h = ''//['' then Inl ValueError
                  else Inr (''https://www.tripadvisor.com'' @ h))"

text \<open>The absolute URL \<open>site_join\<close> gives for a link of a page at \<open>base\<close>.\<close>

definition site_absolute :: "string \<Rightarrow> string option \<Rightarrow> string" where
  "site_absolute base link =
     (case link of None \<Rightarrow> base | Some h \<Rightarrow> ''https://www.tripadvisor.com'' @ h)"

definition hotel_card :: "string \<Rightarrow> list_item" where
  "hotel_card n =
     \<lparr>card_title_texts = [''1. '', n], card_title_href = Some (''/Hotel_Review-'' @ n)\<rparr>"

text \<open>A search page with two hotel cards, the given count captures and next-page link.\<close>

definition two_cards :: "string list \<Rightarrow> string option \<Rightarrow> search_page" where
  "two_cards counts next_link =
     \<lparr>list_items = [hotel_card ''A'', hotel_card ''B''], listing_links = [],
      properties_counts = counts, next_page_href = next_link\<rparr>"

text \<open>
  A site that answers every search request with the same two-card page and the given
  status, and knows one location.
\<close>

definition search_site :: "int \<Rightarrow> string list \<Rightarrow> string option \<Rightarrow> search_env" where
  "search_site status counts next_link =
     \<lparr>post_location = (\<lambda>query. Inr [\<lparr>details = None\<rparr>, \<lparr>details = Some goa\<rparr>]),
      get_page = (\<lambda>n u. \<lparr>status_code = status, response_url = u,
                           body = two_cards counts next_link\<rparr>),
      start_key = (\<lambda>i. 7 - i),
      latency = (\<lambda>i. 5 - i),
      urljoin = site_join\<rparr>"

text \<open>A location endpoint whose only entry has no details.\<close>

definition nowhere_site :: search_env where
  "nowhere_site =
     \<lparr>post_location = (\<lambda>query. Inr [\<lparr>details = None\<rparr>]),
      get_page = (\<lambda>n u. \<lparr>status_code = 200, response_url = u, body = two_cards [] None\<rparr>),
      start_key = (\<lambda>i. i),
      latency = (\<lambda>i. i),
      urljoin = site_join\<rparr>"

text \<open>A search page in the second layout only.\<close>

definition listing_page :: "search_page response" where
  "listing_page =
     \<lparr>status_code = 200, response_url = ''https://www.tripadvisor.com/Hotels-g297604-Goa.html'',
      body = \<lparr>list_items = [],
              listing_links = [\<lparr>link_href = Some ''/Hotel_Review-d1'',
                                link_text = Some ''3. The Grand''\<rparr>],
              properties_counts = [], next_page_href = None\<rparr>\<rparr>"

text \<open>
  A page with a card whose title link has a single text node and with a link of the
  second layout, and a page whose only card links to \<^verbatim>\<open>//[\<close>.
\<close>

definition short_card_page :: "search_page response" where
  "short_card_page =
     \<lparr>status_code = 200, response_url = ''https://www.tripadvisor.com/Hotels-g297604-Goa.html'',
      body = \<lparr>list_items = [\<lparr>card_title_texts = [''The Grand''],
                             card_title_href = Some ''/Hotel_Review-d1''\<rparr>],
              listing_links = [\<lparr>link_href = Some ''/Hotel_Review-d1'',
                                link_text = Some ''3. The Grand''\<rparr>],
              properties_counts = [], next_page_href = None\<rparr>\<rparr>"

definition bad_link_page :: "search_page response" where
  "bad_link_page =
     \<lparr>status_code = 200, response_url = ''https://www.tripadvisor.com/Hotels-g297604-Goa.html'',
      body = \<lparr>list_items = [\<lparr>card_title_texts = [''1. '', ''The Grand''],
                             card_title_href = Some ''//[''\<rparr>],
              listing_links = [], properties_counts = [], next_page_href = None\<rparr>\<rparr>"

text \<open>A page of the first layout with two cards.\<close>

definition card_page :: "search_page response" where
  "card_page =
     \<lparr>status_code = 200, response_url = ''https://www.tripadvisor.com/Hotels-g297604-Goa.html'',
      body = two_cards [''7''] None\<rparr>"

definition full_review :: review_node where
  "full_review =
     \<lparr>title_text = Some ''Great'', body_html = Some ''<span class=x> Nice <br>stay </span>'',
      rating_title = Some ''4.0 of 5 bubbles'', stay_date_text = Some '' May 2024''\<rparr>"

text \<open>A hotel page that declares \<open>n\<close> reviews and shows the given containers.\<close>

definition hotel_page_of :: "int \<Rightarrow> review_node list \<Rightarrow> hotel_page" where
  "hotel_page_of n nodes =
     \<lparr>aggregate_script =
        Some (Inr (JObj [(''name'', JStr ''Hotel''),
                         (''aggregateRating'',
                          JObj [(''ratingValue'', JStr ''4.5''), (''reviewCount'', JInt n)])])),
      description_text = None, amenity_texts = [''Pool''], review_nodes = nodes\<rparr>"

definition hotel_site ::
  "int \<Rightarrow> int \<Rightarrow> review_node list \<Rightarrow> nat \<Rightarrow> string \<Rightarrow> hotel_page response" where
  "hotel_site status n nodes =
     (\<lambda>i u. \<lparr>status_code = status, response_url = u, body = hotel_page_of n nodes\<rparr>)"

definition hotel_url_1926 :: string where
  "hotel_url_1926 = ''https://www.tripadvisor.com/Hotel_Review-g190327-d264936-Reviews-1926_Hotel_Spa-Sliema_Island_of_Malta.html''"

text \<open>The first search page of Goa, its next-page link with and without the offset token.\<close>

definition goa_hotels_url :: string where
  "goa_hotels_url = ''https://www.tripadvisor.com/Hotels-g297604-Goa.html''"

definition goa_next_url :: string where
  "goa_next_url = ''https://www.tripadvisor.com/Hotels-g297604-oa30-Goa.html''"

text \<open>A site whose next-page link carries no offset token, with seven properties.\<close>

definition tokenless_site :: search_env where
  "tokenless_site = search_site 200 [''7''] (Some ''/Hotels-g297604-Goa.html'')"

section \<open>Basic facts\<close>

lemma bind_Inl [simp]: "bind (Inl e) f = Inl e"
  by (simp add: bind_def)

lemma bind_Inr [simp]: "bind (Inr x) f = f x"
  by (simp add: bind_def)



subsection \<open>Lists and the two layouts of a search page\<close>

lemma py_second_eq:
  "py_second xs = (if 2 \<le> length xs then Inr (xs ! 1) else Inl IndexError)"
  by (cases xs; cases "tl xs") (auto simp: py_second_def)

lemma py_last_eq: "xs \<noteq> [] \<Longrightarrow> py_last xs = Inr (last xs)"
  by (cases xs rule: rev_cases) (auto simp: py_last_def)

lemma py_split_from_not_Nil: "py_split_from sep cur s \<noteq> []"
  by (induction sep cur s rule: py_split_from.induct) auto

lemma location1_eq:
  assumes "list_all (\<lambda>box. 2 \<le> length (card_title_texts box)
                      \<and> join base (card_title_href box) = Inr (absolute (card_title_href box)))
             boxes"
  shows "location1 join base boxes parsed =
           Inr (parsed @ map (\<lambda>box. \<lparr>url = absolute (card_title_href box),
                                        name = card_title_texts box ! 1\<rparr>) boxes)"
  using assms by (induction boxes arbitrary: parsed) (auto simp: py_second_eq)

lemma location1_short_card:
  assumes "list_all (\<lambda>box. 2 \<le> length (card_title_texts box)
                      \<and> join base (card_title_href box) = Inr (absolute (card_title_href box)))
             before"
    and "length (card_title_texts box) < 2"
  shows "location1 join base (before @ box # after) parsed = Inl IndexError"
  using assms by (induction before arbitrary: parsed) (auto simp: py_second_eq)

lemma location2_eq:
  assumes "list_all (\<lambda>box. join base (link_href box) = Inr (absolute (link_href box))) boxes"
  shows "location2 join base boxes parsed =
           Inr (parsed @ map (\<lambda>box. \<lparr>url = absolute (link_href box),
                   name = last (py_split_from ''. '' []
                                  (case link_text box of None \<Rightarrow> [] | Some t \<Rightarrow> t))\<rparr>) boxes)"
  using assms
  by (induction boxes arbitrary: parsed)
     (auto simp: py_split_def py_last_eq py_split_from_not_Nil)

lemma sanitize_eq: "sanitize results acc = acc @ List.map_filter details results"
  by (induction results arbitrary: acc) (auto split: option.splits)

subsection \<open>Rounding to a double and the exact ceiling\<close>

lemma bit_length_nonneg: "0 \<le> bit_length n"
  by (induction n rule: bit_length.induct) (simp add: bit_length.simps)

lemma bit_length_pos: "0 < n \<Longrightarrow> 1 \<le> bit_length n"
  using bit_length_nonneg [of "n div 2"] by (simp add: bit_length.simps [of n])

lemma less_two_power_bit_length: "n < 2 ^ nat (bit_length n)"
proof (induction n rule: bit_length.induct)
  case (1 n)
  show ?case
  proof (cases "n \<le> 0")
    case True
    then show ?thesis by (simp add: bit_length.simps [of n])
  next
    case False
    then have ih: "n div 2 < 2 ^ nat (bit_length (n div 2))"
      using "1.IH" by simp
    have "nat (1 + bit_length (n div 2)) = Suc (nat (bit_length (n div 2)))"
      using bit_length_nonneg [of "n div 2"] by simp
    moreover have "n < 2 * (n div 2 + 1)" by presburger
    ultimately show ?thesis
      using False ih by (simp add: bit_length.simps [of n])
  qed
qed

lemma bit_length_le: "n < 2 ^ k \<Longrightarrow> bit_length n \<le> int k"
proof (induction n arbitrary: k rule: bit_length.induct)
  case (1 n)
  show ?case
  proof (cases "n \<le> 0")
    case True
    then show ?thesis by (simp add: bit_length.simps [of n])
  next
    case False
    then obtain j where k: "k = Suc j"
      using "1.prems" by (cases k) auto
    have "n div 2 < 2 ^ j"
      using "1.prems" k by simp
    then have "bit_length (n div 2) \<le> int j"
      using "1.IH" False by simp
    then show ?thesis
      using False k by (simp add: bit_length.simps [of n])
  qed
qed

lemma rne_div_le:
  assumes "0 < d" and "n \<le> t * d"
  shows "rne_div n d \<le> t"
proof -
  define q where "q = n div d"
  define r where "r = n mod d"
  have n: "n = q * d + r" and r: "0 \<le> r" "r < d"
    using assms(1) by (simp_all add: q_def r_def)
  have "q * d \<le> t * d" using n r assms(2) by linarith
  then have qt: "q \<le> t" using assms(1) by simp
  show ?thesis
  proof (cases "q = t")
    case True
    then have "r = 0" using n r assms(2) by simp
    then show ?thesis
      using True assms(1) by (simp add: rne_div_def Let_def flip: q_def r_def)
  next
    case False
    then have "q + 1 \<le> t" using qt by simp
    then show ?thesis
      by (simp add: rne_div_def Let_def flip: q_def r_def)
  qed
qed

lemma rne_div_gt:
  assumes "0 < d" and "2 * t * d + d < 2 * n"
  shows "t < rne_div n d"
proof -
  define q where "q = n div d"
  define r where "r = n mod d"
  have n: "n = q * d + r" and r: "0 \<le> r" "r < d"
    using assms(1) by (simp_all add: q_def r_def)
  have "2 * t * d + d < 2 * q * d + 2 * d"
    using assms(2) n r by (simp add: algebra_simps)
  then have "(2 * t + 1) * d < (2 * q + 2) * d"
    by (simp add: algebra_simps)
  then have "2 * t + 1 < 2 * q + 2"
    using assms(1) by (simp add: mult_less_cancel_right)
  then have tq: "t \<le> q" by simp
  show ?thesis
  proof (cases "q = t")
    case True
    then have "d < 2 * r" using assms(2) n by (simp add: algebra_simps)
    then show ?thesis
      using True by (simp add: rne_div_def Let_def flip: q_def r_def)
  next
    case False
    then have "t < q" using tq by simp
    then show ?thesis
      by (simp add: rne_div_def Let_def flip: q_def r_def)
  qed
qed

lemma neg_div_neg_eq:
  fixes c d x :: int
  assumes "0 < d" and "(c - 1) * d < x" and "x \<le> c * d"
  shows "- ((- x) div d) = c"
proof -
  have "(- x) div d = - c"
  proof (rule int_div_pos_eq [where r = "c * d - x"])
    show "- x = d * - c + (c * d - x)" by simp
    show "0 \<le> c * d - x" using assms(3) by simp
    show "c * d - x < d" using assms(2) by (simp add: algebra_simps)
  qed
  then show ?thesis by simp
qed

lemma exact_ceil_eq: "exact_ceil a b = - ((- a) div b)"
  by (simp add: exact_ceil_def ceiling_divide_eq_div)

lemma exact_ceil_bounds:
  assumes "0 < b"
  shows "(exact_ceil a b - 1) * b < a" and "a \<le> exact_ceil a b * b"
proof -
  define q where "q = (- a) div b"
  define r where "r = (- a) mod b"
  have "- a = q * b + r" "0 \<le> r" "r < b"
    using assms by (simp_all add: q_def r_def)
  then show "(exact_ceil a b - 1) * b < a" and "a \<le> exact_ceil a b * b"
    by (simp_all add: exact_ceil_eq algebra_simps flip: q_def)
qed

lemma nearest_double_small:
  assumes a: "0 < a" "a < 2 ^ 53" and b: "0 < b" "b < 2 ^ 1075"
  shows "\<exists>m k. nearest_double a b = Inr (m, - int k) \<and> m = rne_div (a * 2 ^ k) b \<and> b < 2 * 2 ^ k"
proof -
  define e where "e = quotient_exponent a b"
  define u where "u = max (e - 52) (- 1074)"
  define k where "k = nat (- u)"
  have la: "bit_length a \<le> 53"
    using bit_length_le [of a 53] a by simp
  have lb: "1 \<le> bit_length b"
    using bit_length_pos b by simp
  have e_le: "e \<le> bit_length a - bit_length b" and e_ge: "bit_length a - bit_length b - 1 \<le> e"
    by (simp_all add: e_def quotient_exponent_def Let_def)
  have u_le: "u \<le> 0" and u_ge: "- 1074 \<le> u"
    using e_le la lb by (simp_all add: u_def)
  have u_k: "u = - int k" "nat u = 0"
    using u_le by (simp_all add: k_def)
  have nd: "nearest_double a b = Inr (rne_div (a * 2 ^ k) b, - int k)"
    using u_le u_k by (simp add: nearest_double_def Let_def flip: e_def u_def k_def)
  have "b < 2 * 2 ^ k"
  proof (cases "u = - 1074")
    case True
    then have "k = 1074" by (simp add: k_def)
    then show ?thesis using b by simp
  next
    case False
    then have "u = e - 52" by (simp add: u_def)
    then have "bit_length b - 1 \<le> int k"
      using e_le la u_le by (simp add: k_def)
    then have "nat (bit_length b) \<le> Suc k" by simp
    then have "(2::int) ^ nat (bit_length b) \<le> 2 ^ Suc k"
      by (rule power_increasing) simp
    then show ?thesis
      using less_two_power_bit_length [of b] by simp
  qed
  then show ?thesis using nd by blast
qed

lemma ceil_truediv_exact:
  assumes a: "0 \<le> a" "a < 2 ^ 53" and b: "0 < b" "b < 2 ^ 1075"
  shows "bind (py_truediv a b) (\<lambda>x. Inr (math_ceil x)) = Inr (exact_ceil a b)"
proof (cases "a = 0")
  case True
  then show ?thesis
    using b by (simp add: py_truediv_def math_ceil_def exact_ceil_def)
next
  case False
  then have a0: "0 < a" using a by simp
  obtain m k where nd: "nearest_double a b = Inr (m, - int k)"
    and m: "m = rne_div (a * 2 ^ k) b" and bk: "b < 2 * 2 ^ k"
    using nearest_double_small [OF a0 a(2) b] by blast
  define c where "c = exact_ceil a b"
  have lo: "(c - 1) * b < a" and hi: "a \<le> c * b"
    using exact_ceil_bounds [OF b(1), of a] by (simp_all add: c_def)
  have "a * 2 ^ k \<le> (c * 2 ^ k) * b"
    using hi by (simp add: mult.assoc mult.left_commute mult_right_mono)
  then have m_le: "m \<le> c * 2 ^ k"
    unfolding m using b(1) by (rule rne_div_le [rotated])
  have "(c - 1) * b + 1 \<le> a" using lo by simp
  then have "((c - 1) * b + 1) * 2 ^ k \<le> a * 2 ^ k"
    by (simp add: mult_right_mono)
  then have "2 * ((c - 1) * 2 ^ k) * b + 2 * 2 ^ k \<le> 2 * (a * 2 ^ k)"
    by (simp add: algebra_simps)
  then have "2 * ((c - 1) * 2 ^ k) * b + b < 2 * (a * 2 ^ k)"
    using bk by linarith
  then have m_gt: "(c - 1) * 2 ^ k < m"
    unfolding m using b(1) by (rule rne_div_gt [rotated])
  have "- ((- m) div 2 ^ k) = c"
    by (rule neg_div_neg_eq) (use m_gt m_le in simp_all)
  moreover have "math_ceil (m, - int k) = - ((- m) div 2 ^ k)"
    by (cases "k = 0") (simp_all add: math_ceil_def)
  ultimately show ?thesis
    using a0 b(1) nd by (simp add: py_truediv_def c_def)
qed

subsection \<open>Replacing a token and writing an offset\<close>

lemma occurs_prefix: "prefix old s \<Longrightarrow> occurs old s"
  by (cases s) auto

lemma occurs_append_left: "occurs x (x @ s)"
  by (rule occurs_prefix) simp

lemma py_replace_absent: "\<not> occurs old s \<Longrightarrow> py_replace s old new = s"
  by (induction s old new rule: py_replace.induct) auto

lemma occurs_py_replace:
  "occurs old s \<Longrightarrow> old \<noteq> [] \<Longrightarrow> occurs new (py_replace s old new)"
proof (induction s old new rule: py_replace.induct)
  case (1 old new)
  then show ?case by simp
next
  case (2 c cs old new)
  show ?case
  proof (cases "prefix old (c # cs)")
    case True
    then show ?thesis
      using "2.prems" occurs_append_left by simp
  next
    case False
    then have "occurs new (py_replace cs old new)"
      using 2 by simp
    then show ?thesis
      using False "2.prems" by simp
  qed
qed

lemma py_replace_length_mono:
  "length n1 \<le> length n2 \<Longrightarrow> length (py_replace s old n1) \<le> length (py_replace s old n2)"
  by (induction s old n1 rule: py_replace.induct) auto

lemma py_replace_inj:
  "occurs old s \<Longrightarrow> old \<noteq> [] \<Longrightarrow> py_replace s old n1 = py_replace s old n2 \<Longrightarrow> n1 = n2"
proof (induction s old n1 rule: py_replace.induct)
  case (1 old new)
  then show ?case by simp
next
  case (2 c cs old new)
  show ?case
  proof (cases "prefix old (c # cs)")
    case True
    define rest where "rest = drop (length old) (c # cs)"
    have eq: "new @ py_replace rest old new = n2 @ py_replace rest old n2"
      using True "2.prems" by (simp add: rest_def)
    have "length new = length n2"
    proof (rule ccontr)
      assume neq: "length new \<noteq> length n2"
      have "length (new @ py_replace rest old new) \<noteq> length (n2 @ py_replace rest old n2)"
      proof (cases "length new < length n2")
        case True
        then show ?thesis
          using py_replace_length_mono [of new n2 rest old] by simp
      next
        case False
        then have "length n2 < length new" using neq by simp
        then show ?thesis
          using py_replace_length_mono [of n2 new rest old] by simp
      qed
      then show False using eq by simp
    qed
    then show ?thesis using eq by simp
  next
    case False
    then show ?thesis using 2 by simp
  qed
qed

lemma digit_char_inj: "a < 10 \<Longrightarrow> b < 10 \<Longrightarrow> digit_char a = digit_char b \<Longrightarrow> a = b"
proof -
  assume "a < 10" "b < 10" "digit_char a = digit_char b"
  moreover have "distinct ''0123456789''" by simp
  ultimately show "a = b"
    by (simp add: digit_char_def nth_eq_iff_index_eq)
qed

lemma dec_not_Nil: "dec n \<noteq> []"
  by (simp add: dec.simps [of n])

lemma digit_char_not_minus: "d < 10 \<Longrightarrow> digit_char d \<noteq> CHR ''-''"
proof -
  assume "d < 10"
  then have "digit_char d \<in> set ''0123456789''"
    unfolding digit_char_def by (intro nth_mem) simp
  then show ?thesis by auto
qed

lemma hd_dec_not_minus: "hd (dec n) \<noteq> CHR ''-''"
proof (induction n rule: dec.induct)
  case (1 n)
  show ?case
  proof (cases "n < 10")
    case True
    then show ?thesis by (simp add: dec.simps [of n] digit_char_not_minus)
  next
    case False
    then show ?thesis
      using 1 dec_not_Nil [of "n div 10"] by (simp add: dec.simps [of n])
  qed
qed

lemma dec_inj: "dec m = dec n \<Longrightarrow> m = n"
proof (induction m arbitrary: n rule: dec.induct)
  case (1 m)
  show ?case
  proof (cases "m < 10")
    case m: True
    show ?thesis
    proof (cases "n < 10")
      case True
      then show ?thesis
        using m "1.prems" by (simp add: dec.simps [of m] dec.simps [of n] digit_char_inj)
    next
      case False
      then show ?thesis
        using m "1.prems" dec_not_Nil [of "n div 10"]
        by (simp add: dec.simps [of m] dec.simps [of n])
    qed
  next
    case m: False
    show ?thesis
    proof (cases "n < 10")
      case True
      then show ?thesis
        using m "1.prems" dec_not_Nil [of "m div 10"]
        by (simp add: dec.simps [of m] dec.simps [of n])
    next
      case False
      then have "dec (m div 10) = dec (n div 10)" "digit_char (m mod 10) = digit_char (n mod 10)"
        using m "1.prems" by (simp_all add: dec.simps [of m] dec.simps [of n])
      then have "m div 10 = n div 10" "m mod 10 = n mod 10"
        using "1.IH" m by (simp_all add: digit_char_inj)
      then show ?thesis
        by (metis div_mult_mod_eq)
    qed
  qed
qed

lemma py_str_inj: "py_str m = py_str n \<Longrightarrow> m = n"
proof -
  assume eq: "py_str m = py_str n"
  have neg: False if "i < 0" "\<not> j < 0" "py_str i = py_str j" for i j
  proof -
    have "CHR ''-'' # dec (nat (- i)) = dec (nat j)"
      using that by (simp add: py_str_def)
    then have "hd (dec (nat j)) = CHR ''-''" by (metis list.sel(1))
    then show False using hd_dec_not_minus by blast
  qed
  show "m = n"
  proof (cases "m < 0"; cases "n < 0")
    assume "m < 0" "n < 0"
    then have "nat (- m) = nat (- n)" using eq dec_inj by (simp add: py_str_def)
    then show ?thesis using \<open>m < 0\<close> \<open>n < 0\<close> by simp
  next
    assume "\<not> m < 0" "\<not> n < 0"
    then have "nat m = nat n" using eq dec_inj by (simp add: py_str_def)
    then show ?thesis using \<open>\<not> m < 0\<close> \<open>\<not> n < 0\<close> by simp
  qed (use neg eq in \<open>metis+\<close>)
qed

lemma length_py_range: "length (py_range a b) = nat (b - a)"
  by (simp add: py_range_def)

lemma nth_py_range: "i < length (py_range a b) \<Longrightarrow> py_range a b ! i = a + int i"
  by (simp add: py_range_def)

lemma distinct_py_range: "distinct (py_range a b)"
  by (simp add: py_range_def)

subsection \<open>The follow-up URLs and the runs of the paginators\<close>

lemma length_other_page_urls:
  "length (other_page_urls u page_size total_pages) = nat (total_pages - 1)"
  by (simp add: other_page_urls_def length_py_range)

lemma nth_other_page_urls:
  "i < nat (total_pages - 1) \<Longrightarrow>
     other_page_urls u page_size total_pages ! i =
       py_replace u (''oa'' @ py_str page_size) (''oa'' @ py_str (page_size * (int i + 1)))"
  by (simp add: other_page_urls_def length_py_range nth_py_range add.commute)

lemma distinct_other_page_urls:
  assumes "occurs (''oa'' @ py_str page_size) u" and "page_size \<noteq> 0"
  shows "distinct (other_page_urls u page_size total_pages)"
proof -
  have "inj_on (\<lambda>i. py_replace u (''oa'' @ py_str page_size) (''oa'' @ py_str (page_size * i)))
          (set (py_range 1 total_pages))"
  proof (rule inj_onI)
    fix i j
    assume eq: "py_replace u (''oa'' @ py_str page_size) (''oa'' @ py_str (page_size * i))
          = py_replace u (''oa'' @ py_str page_size) (''oa'' @ py_str (page_size * j))"
    have "''oa'' @ py_str (page_size * i) = ''oa'' @ py_str (page_size * j)"
      by (rule py_replace_inj [OF assms(1) _ eq]) simp
    then have "py_str (page_size * i) = py_str (page_size * j)"
      by simp
    then have "page_size * i = page_size * j"
      by (rule py_str_inj)
    then show "i = j" using assms(2) by simp
  qed
  then show ?thesis
    by (simp add: other_page_urls_def distinct_map distinct_py_range)
qed

lemma other_page_urls_absent:
  "\<not> occurs (''oa'' @ py_str page_size) u \<Longrightarrow>
     other_page_urls u page_size total_pages = replicate (nat (total_pages - 1)) u"
  by (simp add: other_page_urls_def py_replace_absent map_replicate_const length_py_range)

lemma length_review_urls: "length (review_urls h pages) = nat (pages - 1)"
  by (simp add: review_urls_def length_py_range)

lemma nth_review_urls:
  "i < nat (pages - 1) \<Longrightarrow>
     review_urls h pages ! i =
       py_replace h ''-Reviews-'' (''-Reviews-or'' @ py_str (10 * (int i + 1)) @ ''-'')"
  by (simp add: review_urls_def length_py_range nth_py_range add.commute)

lemma distinct_review_urls:
  assumes "occurs ''-Reviews-'' h"
  shows "distinct (review_urls h pages)"
proof -
  have "inj_on (\<lambda>i. py_replace h ''-Reviews-'' (''-Reviews-or'' @ py_str (10 * i) @ ''-''))
          (set (py_range 1 pages))"
  proof (rule inj_onI)
    fix i j
    assume eq: "py_replace h ''-Reviews-'' (''-Reviews-or'' @ py_str (10 * i) @ ''-'')
          = py_replace h ''-Reviews-'' (''-Reviews-or'' @ py_str (10 * j) @ ''-'')"
    have "''-Reviews-or'' @ py_str (10 * i) @ ''-'' = ''-Reviews-or'' @ py_str (10 * j) @ ''-''"
      by (rule py_replace_inj [OF assms _ eq]) simp
    then have "py_str (10 * i) = py_str (10 * j)"
      by simp
    then have "10 * i = 10 * j"
      by (rule py_str_inj)
    then show "i = j" by simp
  qed
  then show ?thesis
    by (simp add: review_urls_def distinct_map distinct_py_range)
qed

lemma card_set_eq_length_iff: "card (set xs) = length xs \<longleftrightarrow> distinct xs"
  using distinct_card card_distinct by blast

lemma length_start_order [simp]: "length (start_order env urls) = length urls"
  by (simp add: start_order_def)

lemma set_start_order [simp]: "set (start_order env urls) = {..<length urls}"
  by (auto simp: start_order_def)

lemma distinct_start_order [simp]: "distinct (start_order env urls)"
  by (simp add: start_order_def)

lemma length_as_completed [simp]: "length (as_completed env urls) = length urls"
  by (simp add: as_completed_def)


lemma paginate_search_urls:
  assumes "parse_search_page (urljoin env) first_page = Inr results"
    and "results \<noteq> []"
    and "bind (py_first (properties_counts (body first_page)))
           (\<lambda>matched. py_int_str (py_replace matched '','' [])) = Inr total_results"
    and "urljoin env hotel_search_url (next_page_href (body first_page)) = Inr next_page_url"
    and "search_total_pages total_results (int (length results)) max_pages = Inr total_pages"
    and "urls = other_page_urls next_page_url (int (length results)) total_pages"
  shows "paginate_search env hotel_search_url first_page max_pages sent =
           (if distinct urls
            then (extend_results (urljoin env) results (as_completed env urls),
                  sent @ map (\<lambda>i. GET (urls ! i)) (start_order env urls))
            else (Inl AssertionError, sent))"
  using assms by (simp add: paginate_search_def Let_def card_set_eq_length_iff)

lemma scrape_hotel_reviews_run:
  assumes "status_code (get 0 hotel_url) = 200"
    and "parse_hotel_page (get 0 hotel_url) = Inr hotel"
    and "total_reviews_of hotel = Inr total_reviews"
    and "review_total_pages total_reviews max_review_pages = Inr total_review_pages"
  shows "scrape_hotel_reviews get hotel_url max_review_pages =
           (extend_reviews hotel (gather get (review_urls hotel_url total_review_pages)),
            GET hotel_url # map GET (review_urls hotel_url total_review_pages))"
  using assms by (simp add: scrape_hotel_reviews_def Let_def)

lemma fetches_GETs [simp]: "fetches (map GET urls) = length urls"
  by (induction urls) (simp_all add: fetches_def)

lemma fetches_started [simp]: "fetches (map (\<lambda>i. GET (f i)) order) = length order"
  by (induction order) (simp_all add: fetches_def)

lemma fetches_append [simp]: "fetches (xs @ ys) = fetches xs + fetches ys"
  by (simp add: fetches_def)

lemma search_total_pages_exact:
  assumes "0 < page_size" "page_size < 2 ^ 63" "0 \<le> total_results" "total_results < 2 ^ 53"
  shows "search_total_pages total_results page_size max_pages =
           Inr (case max_pages of
                  None \<Rightarrow> exact_ceil total_results page_size
                | Some m \<Rightarrow> if m \<noteq> 0 \<and> m < exact_ceil total_results page_size then m
                            else exact_ceil total_results page_size)"
proof -
  have "page_size < 2 ^ 1075"
    using assms(2) by (rule less_trans) simp
  then have "bind (py_truediv total_results page_size) (\<lambda>x. Inr (math_ceil x))
               = Inr (exact_ceil total_results page_size)"
    using assms by (intro ceil_truediv_exact) simp_all
  then obtain q where "py_truediv total_results page_size = Inr q"
    and "math_ceil q = exact_ceil total_results page_size"
    by (cases "py_truediv total_results page_size") simp_all
  then show ?thesis
    by (simp add: search_total_pages_def Let_def cong: option.case_cong if_cong)
qed

lemma review_total_pages_exact:
  assumes "0 \<le> total_reviews" "total_reviews < 2 ^ 53"
  shows "review_total_pages total_reviews max_review_pages =
           Inr (case max_review_pages of
                  None \<Rightarrow> exact_ceil total_reviews 10
                | Some m \<Rightarrow> if m \<noteq> 0 \<and> m < exact_ceil total_reviews 10 then m
                            else exact_ceil total_reviews 10)"
proof -
  have "bind (py_truediv total_reviews 10) (\<lambda>x. Inr (math_ceil x))
               = Inr (exact_ceil total_reviews 10)"
    using assms by (intro ceil_truediv_exact) simp_all
  then obtain q where "py_truediv total_reviews 10 = Inr q"
    and "math_ceil q = exact_ceil total_reviews 10"
    by (cases "py_truediv total_reviews 10") simp_all
  then show ?thesis
    by (simp add: review_total_pages_def Let_def cong: option.case_cong if_cong)
qed

lemma clamp_pages_code:
  "max_pages \<noteq> Some 0 \<Longrightarrow>
     (case max_pages of None \<Rightarrow> c | Some m \<Rightarrow> if m \<noteq> 0 \<and> m < c then m else c)
       = clamp_pages c max_pages"
  by (cases max_pages) (auto simp: clamp_pages_def)

lemma fetches_simps [simp]:
  "fetches [] = 0"
  "fetches (GET u # sent) = Suc (fetches sent)"
  "fetches (POST u # sent) = fetches sent"
  by (simp_all add: fetches_def)

section \<open>Review containers with missing nodes\<close>

text \<open>
  What \<^verbatim>\<open>parse_hotel_page\<close> does with a container, field by field: a missing title or
  rating node gives \<open>None\<close> for that field, a missing body or date node raises.
\<close>

lemma rating_first_piece:
  "bind (bind (py_split r ''.'') py_first) (\<lambda>piece. Inr (Some piece))
     = Inr (Some (hd (py_split_from ''.'' [] r)))"
  using py_split_from_not_Nil [of "''.''" "[]" r]
  by (cases "py_split_from ''.'' [] r") (simp_all add: py_split_def py_first_def)

lemma parse_review_complete:
  assumes "body_html node = Some html" and "stay_date_text node = Some d"
  shows "parse_review node =
           Inr \<lparr>title = title_text node,
                review_text = py_strip (re_sub_tags html),
                rate = (case rating_title node of
                          None \<Rightarrow> None
                        | Some r \<Rightarrow> if r = [] then None
                                    else Some (hd (py_split_from ''.'' [] r))),
                tripDate = py_strip d\<rparr>"
  using assms
  by (cases "rating_title node") (simp_all add: parse_review_def rating_first_piece)

lemma parse_review_no_body: "body_html node = None \<Longrightarrow> parse_review node = Inl TypeError"
  by (simp add: parse_review_def)

lemma parse_review_no_date:
  assumes "body_html node = Some html" and "stay_date_text node = None"
  shows "parse_review node = Inl AttributeError"
  using assms
  by (cases "rating_title node") (simp_all add: parse_review_def rating_first_piece)

lemma parse_reviews_abort:
  "parse_review node = Inl e \<Longrightarrow> list_all (\<lambda>n. \<exists>r. parse_review n = Inr r) before \<Longrightarrow>
     parse_reviews (before @ node # after) collected = Inl e"
  by (induction before arbitrary: collected) auto

text \<open>
  C1. The claim holds for the title and the rating only. On a page whose first review
  container has no \<^verbatim>\<open>Date of stay\<close> node, \<^verbatim>\<open>.get().strip()\<close> raises \<^verbatim>\<open>AttributeError\<close>, and on
  one whose container has no body node \<^verbatim>\<open>re.sub\<close> raises \<^verbatim>\<open>TypeError\<close>: in both cases
  \<^verbatim>\<open>parse_hotel_page\<close> returns no record at all, although the second container of the page
  is complete.
\<close>

theorem missing_date_or_body_aborts_page:
  "parse_hotel_page
     \<lparr>status_code = 200, response_url = hotel_url_1926,
      body = hotel_page_of 2 [full_review\<lparr>stay_date_text := None\<rparr>, full_review]\<rparr>
     = Inl AttributeError
   \<and> parse_hotel_page
     \<lparr>status_code = 200, response_url = hotel_url_1926,
      body = hotel_page_of 2 [full_review\<lparr>body_html := None\<rparr>, full_review]\<rparr>
     = Inl TypeError"
  by code_simp

section \<open>A first page that is not answered with status 200\<close>

text \<open>
  C4, as the code has it. When the first page of the search comes back with another
  status than 200, \<^verbatim>\<open>scrape_search_hotel_urls\<close> raises nothing and returns the empty list;
  \<^verbatim>\<open>scrape_hotel_reviews\<close> raises the \<^verbatim>\<open>AssertionError\<close> of its \<^verbatim>\<open>assert\<close>. In both the
  first page is the last request: nothing is retried and no follow-up page is fetched.
\<close>

theorem blocked_first_page:
  "(bind (scrape_location_data (post_location env) query) py_first = Inr location
      \<and> status_code (get_page env 0 (''https://www.tripadvisor.com'' @ HOTELS_URL location)) \<noteq> 200
    \<longrightarrow> scrape_search_hotel_urls env query max_pages =
          (Inr [], [POST graphql_url,
                    GET (''https://www.tripadvisor.com'' @ HOTELS_URL location)]))
   \<and> (status_code (get 0 hotel_url) \<noteq> 200
    \<longrightarrow> scrape_hotel_reviews get hotel_url max_review_pages =
          (Inl AssertionError, [GET hotel_url]))"
  by (simp add: scrape_search_hotel_urls_def scrape_hotel_reviews_def Let_def)

theorem blocked_first_page_witness:
  "scrape_search_hotel_urls (search_site 429 [''7''] None) ''Goa'' (Some 3) =
     (Inr [], [POST graphql_url, GET ''https://www.tripadvisor.com/Hotels-g297604-Goa.html''])
   \<and> scrape_hotel_reviews (hotel_site 429 25 [full_review]) hotel_url_1926 (Some 3) =
     (Inl AssertionError, [GET hotel_url_1926])"
proof -
  have location:
    "bind (scrape_location_data (post_location (search_site 429 [''7''] None)) ''Goa'') py_first
       = Inr goa"
    by code_simp
  have search_status:
    "status_code (get_page (search_site 429 [''7''] None) 0
       (''https://www.tripadvisor.com'' @ HOTELS_URL goa)) \<noteq> 200"
    by (simp add: search_site_def)
  have hotel_status:
    "status_code (hotel_site 429 25 [full_review] 0 hotel_url_1926) \<noteq> 200"
    by (simp add: hotel_site_def)
  show ?thesis
    using blocked_first_page
      [of "search_site 429 [''7''] None" "''Goa''" goa "Some 3"
          "hotel_site 429 25 [full_review]" hotel_url_1926 "Some 3"]
      location search_status hotel_status
    by (simp add: goa_def)
qed

text \<open>The claim as stated fails for the search: status 403 gives a normal return.\<close>

theorem blocked_search_returns_counterexample:
  "status_code (get_page (search_site 403 [''7''] None) 0
     ''https://www.tripadvisor.com/Hotels-g297604-Goa.html'') = 403
   \<and> fst (scrape_search_hotel_urls (search_site 403 [''7''] None) ''Goa'' None) = Inr []"
  by code_simp

section \<open>A location reply without details\<close>

text \<open>
  C6, as the code has it. When every entry of the reply lacks its details, the location
  resolver raises nothing: it returns the empty list. Its caller
  \<^verbatim>\<open>scrape_search_hotel_urls\<close> catches the \<^verbatim>\<open>IndexError\<close> of taking the first element and
  returns the empty list as well, without requesting any page.
\<close>

theorem empty_location_results:
  assumes "post_location env query = Inr results"
    and "list_all (\<lambda>r. details r = None) results"
  shows "scrape_location_data (post_location env) query = Inr []
     \<and> scrape_search_hotel_urls env query max_pages = (Inr [], [POST graphql_url])"
proof -
  have "List.map_filter details results = []"
    using assms(2) by (induction results) (auto simp: List.map_filter_simps)
  then have "scrape_location_data (post_location env) query = Inr []"
    using assms(1) by (simp add: scrape_location_data_def sanitize_eq)
  then show ?thesis
    by (simp add: scrape_search_hotel_urls_def py_first_def)
qed

theorem empty_location_results_witness:
  "scrape_location_data (post_location nowhere_site) ''Atlantis'' = Inr []
   \<and> scrape_search_hotel_urls nowhere_site ''Atlantis'' (Some 5) = (Inr [], [POST graphql_url])"
proof -
  have reply: "post_location nowhere_site ''Atlantis'' = Inr [\<lparr>details = None\<rparr>]"
    by (simp add: nowhere_site_def)
  have dropped: "list_all (\<lambda>r. details r = None) [\<lparr>details = None\<rparr>]"
    by simp
  show ?thesis
    using empty_location_results [OF reply dropped] by simp
qed

text \<open>The claim as stated fails: the resolver's result is a value, not an exception.\<close>

theorem resolver_returns_empty_counterexample:
  "post_location nowhere_site ''Atlantis'' = Inr [\<lparr>details = None\<rparr>]
   \<and> \<not> isl (scrape_location_data (post_location nowhere_site) ''Atlantis'')"
  by code_simp

section \<open>The two layouts of a search page\<close>

text \<open>
  C8, as the code has it. On a page whose \<^verbatim>\<open>span.listItem\<close> cards all have a title link
  with at least two text nodes, and whose links \<^verbatim>\<open>urljoin\<close> makes absolute (those of the
  cards and, when there is no card, those of the second layout), \<^verbatim>\<open>parse_search_page\<close>
  returns the previews of the primary strategy when there are any and those of the
  secondary strategy otherwise: the first non-empty result of the two, in that order.
  On a page with a card whose title link has fewer than two text nodes, the cards
  before it being as above, it returns nothing and raises \<^verbatim>\<open>IndexError\<close>; the secondary
  strategy is not tried.
\<close>

theorem primary_then_secondary:
  "(list_all (\<lambda>box. 2 \<le> length (card_title_texts box)
                \<and> join (response_url response) (card_title_href box)
                    = Inr (absolute (card_title_href box)))
       (list_items (body response))
    \<and> (list_items (body response) = [] \<longrightarrow>
         list_all (\<lambda>box. join (response_url response) (link_href box)
                           = Inr (absolute (link_href box)))
           (listing_links (body response)))
    \<longrightarrow> parse_search_page join response =
          Inr (first_non_empty (primary_strategy absolute response)
                 (secondary_strategy absolute response)))
   \<and> (list_items (body response) = before @ short # after
      \<and> list_all (\<lambda>box. 2 \<le> length (card_title_texts box)
                \<and> join (response_url response) (card_title_href box)
                    = Inr (absolute (card_title_href box)))
          before
      \<and> length (card_title_texts short) < 2
    \<longrightarrow> parse_search_page join response = Inl IndexError)"
proof (intro conjI impI)
  let ?cards = "list_items (body response)"
  assume readable:
    "list_all (\<lambda>box. 2 \<le> length (card_title_texts box)
                \<and> join (response_url response) (card_title_href box)
                    = Inr (absolute (card_title_href box))) ?cards
     \<and> (?cards = [] \<longrightarrow>
         list_all (\<lambda>box. join (response_url response) (link_href box)
                           = Inr (absolute (link_href box)))
           (listing_links (body response)))"
  then have cards:
    "list_all (\<lambda>box. 2 \<le> length (card_title_texts box)
                \<and> join (response_url response) (card_title_href box)
                    = Inr (absolute (card_title_href box))) ?cards"
    by blast
  have primary:
    "location1 join (response_url response) ?cards [] = Inr (primary_strategy absolute response)"
    using cards
      location1_eq [where join = join and base = "response_url response"
        and absolute = absolute and boxes = ?cards and parsed = "[]"]
    by (simp add: primary_strategy_def)
  show "parse_search_page join response =
      Inr (first_non_empty (primary_strategy absolute response)
             (secondary_strategy absolute response))"
  proof (cases "?cards = []")
    case True
    then have links:
      "list_all (\<lambda>box. join (response_url response) (link_href box)
                           = Inr (absolute (link_href box)))
         (listing_links (body response))"
      using readable by blast
    have "location2 join (response_url response) (listing_links (body response)) []
        = Inr (secondary_strategy absolute response)"
      using links
        location2_eq [where join = join and base = "response_url response"
          and absolute = absolute and boxes = "listing_links (body response)"
          and parsed = "[]"]
      by (simp add: secondary_strategy_def)
    then show ?thesis
      using True
      by (simp add: parse_search_page_def primary_strategy_def first_non_empty_def)
  next
    case False
    then have "primary_strategy absolute response \<noteq> []"
      by (simp add: primary_strategy_def)
    then show ?thesis
      using primary by (simp add: parse_search_page_def first_non_empty_def)
  qed
next
  assume unreadable: "list_items (body response) = before @ short # after
      \<and> list_all (\<lambda>box. 2 \<le> length (card_title_texts box)
                \<and> join (response_url response) (card_title_href box)
                    = Inr (absolute (card_title_href box)))
          before
      \<and> length (card_title_texts short) < 2"
  then have "location1 join (response_url response) (before @ short # after) [] = Inl IndexError"
    by (intro location1_short_card [where absolute = absolute]) blast+
  then show "parse_search_page join response = Inl IndexError"
    using unreadable by (simp add: parse_search_page_def)
qed

text \<open>
  A page of the first layout gives the previews of its two cards, a page of the second
  layout only gives the preview of its link, and a card with a single text node ends
  the parse.
\<close>

theorem primary_then_secondary_witness:
  "parse_search_page site_join card_page =
       Inr [\<lparr>url = ''https://www.tripadvisor.com/Hotel_Review-A'', name = ''A''\<rparr>,
            \<lparr>url = ''https://www.tripadvisor.com/Hotel_Review-B'', name = ''B''\<rparr>]
   \<and> primary_strategy (site_absolute (response_url listing_page)) listing_page = []
   \<and> parse_search_page site_join listing_page =
       Inr [\<lparr>url = ''https://www.tripadvisor.com/Hotel_Review-d1'', name = ''The Grand''\<rparr>]
   \<and> parse_search_page site_join short_card_page = Inl IndexError"
proof -
  let ?absolute = "site_absolute ''https://www.tripadvisor.com/Hotels-g297604-Goa.html''"
  have cards:
    "list_all (\<lambda>box. 2 \<le> length (card_title_texts box)
                \<and> site_join (response_url card_page) (card_title_href box)
                    = Inr (?absolute (card_title_href box)))
       (list_items (body card_page))
     \<and> list_items (body card_page) \<noteq> []"
    by code_simp
  have card_previews:
    "first_non_empty (primary_strategy ?absolute card_page)
       (secondary_strategy ?absolute card_page) =
       [\<lparr>url = ''https://www.tripadvisor.com/Hotel_Review-A'', name = ''A''\<rparr>,
        \<lparr>url = ''https://www.tripadvisor.com/Hotel_Review-B'', name = ''B''\<rparr>]"
    by code_simp
  have first_layout:
    "parse_search_page site_join card_page =
       Inr [\<lparr>url = ''https://www.tripadvisor.com/Hotel_Review-A'', name = ''A''\<rparr>,
            \<lparr>url = ''https://www.tripadvisor.com/Hotel_Review-B'', name = ''B''\<rparr>]"
    using primary_then_secondary [where join = site_join and response = card_page
        and absolute = ?absolute and before = "[]"
        and short = "\<lparr>card_title_texts = [], card_title_href = None\<rparr>" and after = "[]"]
      cards card_previews
    by simp
  have links:
    "list_all (\<lambda>box. 2 \<le> length (card_title_texts box)
                \<and> site_join (response_url listing_page) (card_title_href box)
                    = Inr (?absolute (card_title_href box)))
       (list_items (body listing_page))
     \<and> list_all (\<lambda>box. site_join (response_url listing_page) (link_href box)
                           = Inr (?absolute (link_href box)))
         (listing_links (body listing_page))"
    by code_simp
  have no_cards:
    "primary_strategy (site_absolute (response_url listing_page)) listing_page = []"
    by code_simp
  have link_previews:
    "first_non_empty (primary_strategy ?absolute listing_page)
       (secondary_strategy ?absolute listing_page) =
       [\<lparr>url = ''https://www.tripadvisor.com/Hotel_Review-d1'', name = ''The Grand''\<rparr>]"
    by code_simp
  have second_layout:
    "parse_search_page site_join listing_page =
       Inr [\<lparr>url = ''https://www.tripadvisor.com/Hotel_Review-d1'', name = ''The Grand''\<rparr>]"
    using primary_then_secondary [where join = site_join and response = listing_page
        and absolute = ?absolute and before = "[]"
        and short = "\<lparr>card_title_texts = [], card_title_href = None\<rparr>" and after = "[]"]
      links link_previews
    by simp
  have short:
    "list_items (body short_card_page) =
       [] @ \<lparr>card_title_texts = [''The Grand''],
              card_title_href = Some ''/Hotel_Review-d1''\<rparr> # []"
    by (simp add: short_card_page_def)
  have raised: "parse_search_page site_join short_card_page = Inl IndexError"
    using primary_then_secondary [where join = site_join and response = short_card_page
        and absolute = ?absolute and before = "[]"
        and short = "\<lparr>card_title_texts = [''The Grand''],
                       card_title_href = Some ''/Hotel_Review-d1''\<rparr>"
        and after = "[]"]
      short
    by simp
  show ?thesis
    using first_layout no_cards second_layout raised by simp
qed

text \<open>
  The claim as stated fails: on a page with a card whose title link has one text node
  and with a link of the second layout, the secondary strategy has a preview, but
  \<^verbatim>\<open>parse_search_page\<close> returns no result, it raises \<^verbatim>\<open>IndexError\<close>; and on a card that
  links to \<^verbatim>\<open>//[\<close> it raises the \<^verbatim>\<open>ValueError\<close> of \<^verbatim>\<open>urljoin\<close>.
\<close>

theorem short_card_counterexample:
  "list_items (body short_card_page) =
     [\<lparr>card_title_texts = [''The Grand''], card_title_href = Some ''/Hotel_Review-d1''\<rparr>]
   \<and> secondary_strategy (site_absolute (response_url short_card_page)) short_card_page =
       [\<lparr>url = ''https://www.tripadvisor.com/Hotel_Review-d1'', name = ''The Grand''\<rparr>]
   \<and> parse_search_page site_join short_card_page = Inl IndexError
   \<and> parse_search_page site_join bad_link_page = Inl ValueError"
  by code_simp

section \<open>A first page without a property count\<close>

text \<open>
  C9. When the first search page gives previews but no text matches the
  \<^verbatim>\<open>properties\<close> pattern, taking element \<open>0\<close> of the empty list of captures raises
  \<^verbatim>\<open>IndexError\<close>; it is raised behind the \<^verbatim>\<open>try\<close> block, so \<^verbatim>\<open>scrape_search_hotel_urls\<close>
  ends with that exception, after the first page and before any follow-up request.
\<close>

theorem missing_count_raises_IndexError:
  assumes "bind (scrape_location_data (post_location env) query) py_first = Inr location"
    and "first_page = get_page env 0 (''https://www.tripadvisor.com'' @ HOTELS_URL location)"
    and "status_code first_page = 200"
    and "parse_search_page (urljoin env) first_page = Inr results"
    and "results \<noteq> []"
    and "properties_counts (body first_page) = []"
  shows "scrape_search_hotel_urls env query max_pages =
     (Inl IndexError,
      [POST graphql_url, GET (''https://www.tripadvisor.com'' @ HOTELS_URL location)])"
  using assms
  by (simp add: scrape_search_hotel_urls_def paginate_search_def py_first_def Let_def)

theorem missing_count_raises_IndexError_witness:
  "scrape_search_hotel_urls (search_site 200 [] None) ''Goa'' None =
     (Inl IndexError,
      [POST graphql_url, GET ''https://www.tripadvisor.com/Hotels-g297604-Goa.html''])"
proof -
  let ?env = "search_site 200 [] None"
  let ?first = "get_page ?env 0 (''https://www.tripadvisor.com'' @ HOTELS_URL goa)"
  have location: "bind (scrape_location_data (post_location ?env) ''Goa'') py_first = Inr goa"
    by code_simp
  have status: "status_code ?first = 200"
    by (simp add: search_site_def)
  have parsed:
    "parse_search_page (urljoin ?env) ?first =
       Inr [\<lparr>url = ''https://www.tripadvisor.com/Hotel_Review-A'', name = ''A''\<rparr>,
            \<lparr>url = ''https://www.tripadvisor.com/Hotel_Review-B'', name = ''B''\<rparr>]"
    by code_simp
  have counts: "properties_counts (body ?first) = []"
    by (simp add: search_site_def two_cards_def)
  show ?thesis
    using missing_count_raises_IndexError [OF location refl status parsed _ counts, of None]
    by (simp add: goa_def)
qed

section \<open>The follow-up URLs of a pagination round\<close>

lemma replicate_not_distinct: "2 \<le> n \<Longrightarrow> \<not> distinct (replicate n x)"
  by (cases n; cases "n - 1") auto

text \<open>
  C2, as the code has it. Both paginators make \<open>max (totalPages - 1) 0\<close> follow-up URLs,
  the \<open>i\<close>-th (from \<open>1\<close>) being the base URL with every occurrence of the token
  replaced by the token for the offset \<open>pageSize * i\<close>. When the token occurs in the base
  URL (and the page size is not \<open>0\<close>), the \<open>i\<close>-th URL contains the token of its offset
  and the URLs are pairwise distinct. When the token \<^verbatim>\<open>oa<pageSize>\<close> is absent from the
  next-page URL of the search, every follow-up URL is that URL unchanged, and with two
  or more of them the \<^verbatim>\<open>assert\<close> on duplicates ends \<^verbatim>\<open>scrape_search_hotel_urls\<close> with
  \<^verbatim>\<open>AssertionError\<close> before any follow-up request: the pagination does not fall back to
  the first page alone.
\<close>

theorem pagination_urls:
  "length (other_page_urls u page_size total_pages) = nat (total_pages - 1)
   \<and> length (review_urls h review_pages) = nat (review_pages - 1)
   \<and> (\<forall>i < nat (total_pages - 1).
         other_page_urls u page_size total_pages ! i =
           py_replace u (''oa'' @ py_str page_size) (''oa'' @ py_str (page_size * (int i + 1))))
   \<and> (\<forall>i < nat (review_pages - 1).
         review_urls h review_pages ! i =
           py_replace h ''-Reviews-'' (''-Reviews-or'' @ py_str (10 * (int i + 1)) @ ''-''))
   \<and> (occurs (''oa'' @ py_str page_size) u \<and> page_size \<noteq> 0 \<longrightarrow>
         distinct (other_page_urls u page_size total_pages)
         \<and> (\<forall>i < nat (total_pages - 1).
               occurs (''oa'' @ py_str (page_size * (int i + 1)))
                 (other_page_urls u page_size total_pages ! i)))
   \<and> (occurs ''-Reviews-'' h \<longrightarrow>
         distinct (review_urls h review_pages)
         \<and> (\<forall>i < nat (review_pages - 1).
               occurs (''-Reviews-or'' @ py_str (10 * (int i + 1)) @ ''-'')
                 (review_urls h review_pages ! i)))
   \<and> (\<not> occurs (''oa'' @ py_str page_size) u \<longrightarrow>
         other_page_urls u page_size total_pages = replicate (nat (total_pages - 1)) u)
   \<and> (parse_search_page (urljoin env) first_page = Inr results \<and> results \<noteq> []
       \<and> bind (py_first (properties_counts (body first_page)))
            (\<lambda>matched. py_int_str (py_replace matched '','' [])) = Inr total_results
       \<and> search_total_pages total_results (int (length results)) max_pages = Inr pages
       \<and> 3 \<le> pages
       \<and> urljoin env hotel_search_url (next_page_href (body first_page)) = Inr next_page_url
       \<and> \<not> occurs (''oa'' @ py_str (int (length results))) next_page_url
       \<longrightarrow> paginate_search env hotel_search_url first_page max_pages sent
             = (Inl AssertionError, sent))"
proof (intro conjI allI impI)
  show "length (other_page_urls u page_size total_pages) = nat (total_pages - 1)"
    by (rule length_other_page_urls)
  show "length (review_urls h review_pages) = nat (review_pages - 1)"
    by (rule length_review_urls)
next
  fix i assume "i < nat (total_pages - 1)"
  then show "other_page_urls u page_size total_pages ! i =
      py_replace u (''oa'' @ py_str page_size) (''oa'' @ py_str (page_size * (int i + 1)))"
    by (rule nth_other_page_urls)
next
  fix i assume "i < nat (review_pages - 1)"
  then show "review_urls h review_pages ! i =
      py_replace h ''-Reviews-'' (''-Reviews-or'' @ py_str (10 * (int i + 1)) @ ''-'')"
    by (rule nth_review_urls)
next
  assume "occurs (''oa'' @ py_str page_size) u \<and> page_size \<noteq> 0"
  then show "distinct (other_page_urls u page_size total_pages)"
    by (simp add: distinct_other_page_urls)
next
  fix i
  assume "occurs (''oa'' @ py_str page_size) u \<and> page_size \<noteq> 0" and "i < nat (total_pages - 1)"
  then show "occurs (''oa'' @ py_str (page_size * (int i + 1)))
      (other_page_urls u page_size total_pages ! i)"
    using occurs_py_replace [of "''oa'' @ py_str page_size" u]
    by (simp add: nth_other_page_urls)
next
  assume "occurs ''-Reviews-'' h"
  then show "distinct (review_urls h review_pages)"
    by (rule distinct_review_urls)
next
  fix i
  assume "occurs ''-Reviews-'' h" and "i < nat (review_pages - 1)"
  then show "occurs (''-Reviews-or'' @ py_str (10 * (int i + 1)) @ ''-'')
      (review_urls h review_pages ! i)"
    using occurs_py_replace [of "''-Reviews-''" h]
    by (simp add: nth_review_urls)
next
  assume "\<not> occurs (''oa'' @ py_str page_size) u"
  then show "other_page_urls u page_size total_pages = replicate (nat (total_pages - 1)) u"
    by (rule other_page_urls_absent)
next
  assume run: "parse_search_page (urljoin env) first_page = Inr results \<and> results \<noteq> []
       \<and> bind (py_first (properties_counts (body first_page)))
            (\<lambda>matched. py_int_str (py_replace matched '','' [])) = Inr total_results
       \<and> search_total_pages total_results (int (length results)) max_pages = Inr pages
       \<and> 3 \<le> pages
       \<and> urljoin env hotel_search_url (next_page_href (body first_page)) = Inr next_page_url
       \<and> \<not> occurs (''oa'' @ py_str (int (length results))) next_page_url"
  then have "other_page_urls next_page_url (int (length results)) pages
      = replicate (nat (pages - 1)) next_page_url"
    by (simp add: other_page_urls_absent)
  moreover have "2 \<le> nat (pages - 1)"
  proof -
    have "3 \<le> pages" using run by blast
    then show ?thesis by simp
  qed
  ultimately have "\<not> distinct (other_page_urls next_page_url (int (length results)) pages)"
    by (simp add: replicate_not_distinct)
  then show "paginate_search env hotel_search_url first_page max_pages sent
      = (Inl AssertionError, sent)"
    using run paginate_search_urls [of env first_page results total_results hotel_search_url
        next_page_url max_pages pages _ sent]
    by simp
qed

theorem pagination_urls_witness:
  "other_page_urls goa_next_url 30 4 =
     [''https://www.tripadvisor.com/Hotels-g297604-oa30-Goa.html'',
      ''https://www.tripadvisor.com/Hotels-g297604-oa60-Goa.html'',
      ''https://www.tripadvisor.com/Hotels-g297604-oa90-Goa.html'']
   \<and> distinct (other_page_urls goa_next_url 30 4)
   \<and> occurs (''oa'' @ py_str (30 * (int 2 + 1))) (other_page_urls goa_next_url 30 4 ! 2)
   \<and> length (review_urls hotel_url_1926 3) = 2
   \<and> distinct (review_urls hotel_url_1926 3)
   \<and> occurs (''-Reviews-or'' @ py_str (10 * (int 1 + 1)) @ ''-'') (review_urls hotel_url_1926 3 ! 1)
   \<and> other_page_urls goa_hotels_url 2 4 = replicate 3 goa_hotels_url
   \<and> paginate_search tokenless_site goa_hotels_url (get_page tokenless_site 0 goa_hotels_url)
         None [] = (Inl AssertionError, [])"
proof -
  have token: "occurs (''oa'' @ py_str 30) goa_next_url \<and> (30::int) \<noteq> 0"
    by code_simp
  have review_token: "occurs ''-Reviews-'' hotel_url_1926"
    by code_simp
  have urls: "other_page_urls goa_next_url 30 4 =
     [''https://www.tripadvisor.com/Hotels-g297604-oa30-Goa.html'',
      ''https://www.tripadvisor.com/Hotels-g297604-oa60-Goa.html'',
      ''https://www.tripadvisor.com/Hotels-g297604-oa90-Goa.html'']"
    by code_simp
  note with_token =
    pagination_urls [where u = goa_next_url and page_size = 30 and total_pages = 4
      and h = hotel_url_1926 and review_pages = 3 and env = tokenless_site
      and first_page = "get_page tokenless_site 0 goa_hotels_url" and results = "[]"
      and total_results = 7 and max_pages = None and pages = 4
      and hotel_search_url = goa_hotels_url and next_page_url = goa_hotels_url
      and sent = "[]"]
  have search_urls:
    "distinct (other_page_urls goa_next_url 30 4)
     \<and> (\<forall>i < nat (4 - 1). occurs (''oa'' @ py_str (30 * (int i + 1)))
                                (other_page_urls goa_next_url 30 4 ! i))"
    using with_token token by blast
  have hotel_urls:
    "length (review_urls hotel_url_1926 3) = nat (3 - 1)
     \<and> distinct (review_urls hotel_url_1926 3)
     \<and> (\<forall>i < nat (3 - 1). occurs (''-Reviews-or'' @ py_str (10 * (int i + 1)) @ ''-'')
                                (review_urls hotel_url_1926 3 ! i))"
    using with_token review_token by blast
  have third: "(2::nat) < nat (4 - 1)" and second: "(1::nat) < nat (3 - 1)"
    by simp_all
  have third_url:
    "occurs (''oa'' @ py_str (30 * (int 2 + 1))) (other_page_urls goa_next_url 30 4 ! 2)"
    using search_urls third by blast
  have second_url:
    "occurs (''-Reviews-or'' @ py_str (10 * (int 1 + 1)) @ ''-'')
       (review_urls hotel_url_1926 3 ! 1)"
    using hotel_urls second by blast
  have two: "length (review_urls hotel_url_1926 3) = 2"
    using hotel_urls by simp
  have no_token: "\<not> occurs (''oa'' @ py_str 2) goa_hotels_url"
    by code_simp
  have run:
    "parse_search_page (urljoin tokenless_site) (get_page tokenless_site 0 goa_hotels_url)
       = Inr [\<lparr>url = ''https://www.tripadvisor.com/Hotel_Review-A'', name = ''A''\<rparr>,
              \<lparr>url = ''https://www.tripadvisor.com/Hotel_Review-B'', name = ''B''\<rparr>]
     \<and> bind (py_first (properties_counts (body (get_page tokenless_site 0 goa_hotels_url))))
          (\<lambda>matched. py_int_str (py_replace matched '','' [])) = Inr 7
     \<and> search_total_pages 7 2 None = Inr 4
     \<and> urljoin tokenless_site goa_hotels_url
          (next_page_href (body (get_page tokenless_site 0 goa_hotels_url))) = Inr goa_hotels_url"
    by code_simp
  note without_token =
    pagination_urls [where u = goa_hotels_url and page_size = 2 and total_pages = 4
      and h = hotel_url_1926 and review_pages = 3 and env = tokenless_site
      and first_page = "get_page tokenless_site 0 goa_hotels_url"
      and results = "[\<lparr>url = ''https://www.tripadvisor.com/Hotel_Review-A'', name = ''A''\<rparr>,
              \<lparr>url = ''https://www.tripadvisor.com/Hotel_Review-B'', name = ''B''\<rparr>]"
      and total_results = 7 and max_pages = None and pages = 4
      and hotel_search_url = goa_hotels_url and next_page_url = goa_hotels_url
      and sent = "[]"]
  have same: "other_page_urls goa_hotels_url 2 4 = replicate (nat (4 - 1)) goa_hotels_url"
    using without_token no_token by blast
  have raised:
    "paginate_search tokenless_site goa_hotels_url (get_page tokenless_site 0 goa_hotels_url)
       None [] = (Inl AssertionError, [])"
    using without_token no_token run by simp
  have three: "nat (4 - 1) = 3"
    by simp
  show ?thesis
    using urls search_urls third_url two hotel_urls second_url same raised
    unfolding three by blast
qed

text \<open>
  The claim as stated fails where the token is absent: with seven properties at two
  per page the search ends with \<^verbatim>\<open>AssertionError\<close>, and with three properties it fetches
  two pages, not the first page alone.
\<close>

theorem tokenless_pagination_counterexample:
  "\<not> occurs ''oa2'' ''https://www.tripadvisor.com/Hotels-g297604-Goa.html''
   \<and> fst (scrape_search_hotel_urls
        (search_site 200 [''7''] (Some ''/Hotels-g297604-Goa.html'')) ''Goa'' None)
       = Inl AssertionError
   \<and> snd (scrape_search_hotel_urls
        (search_site 200 [''3''] (Some ''/Hotels-g297604-Goa.html'')) ''Goa'' None)
       = [POST graphql_url,
          GET ''https://www.tripadvisor.com/Hotels-g297604-Goa.html'',
          GET ''https://www.tripadvisor.com/Hotels-g297604-Goa.html'']"
  by code_simp

section \<open>The number of search pages\<close>

lemma search_run_fetches:
  assumes location: "bind (scrape_location_data (post_location env) query) py_first = Inr location"
    and first_page:
      "first_page = get_page env 0 (''https://www.tripadvisor.com'' @ HOTELS_URL location)"
    and status: "status_code first_page = 200"
    and parsed: "parse_search_page (urljoin env) first_page = Inr results"
    and some: "results \<noteq> []"
    and size: "int (length results) < 2 ^ 63"
    and count: "bind (py_first (properties_counts (body first_page)))
           (\<lambda>matched. py_int_str (py_replace matched '','' [])) = Inr found"
    and found: "0 \<le> found" "found < 2 ^ 53"
    and limit: "limit \<noteq> Some 0"
    and joined: "urljoin env (''https://www.tripadvisor.com'' @ HOTELS_URL location)
           (next_page_href (body first_page)) = Inr next_page_url"
    and token: "occurs (''oa'' @ py_str (int (length results))) next_page_url"
  shows "fetches (snd (scrape_search_hotel_urls env query limit)) =
          nat (max 1 (clamp_pages (exact_ceil found (int (length results))) limit))"
proof -
  let ?site = "''https://www.tripadvisor.com'' @ HOTELS_URL location"
  let ?n = "int (length results)"
  let ?pages = "clamp_pages (exact_ceil found ?n) limit"
  let ?urls = "other_page_urls next_page_url ?n ?pages"
  have positive: "0 < ?n"
    using some by simp
  have pages: "search_total_pages found ?n limit = Inr ?pages"
    using positive size found limit by (simp add: search_total_pages_exact clamp_pages_code)
  have "distinct ?urls"
    using token positive by (intro distinct_other_page_urls) simp_all
  then have "paginate_search env ?site first_page limit [POST graphql_url, GET ?site] =
      (extend_results (urljoin env) results (as_completed env ?urls),
       [POST graphql_url, GET ?site] @ map (\<lambda>i. GET (?urls ! i)) (start_order env ?urls))"
    using paginate_search_urls [OF parsed some count joined pages refl,
        of "[POST graphql_url, GET ?site]"]
    by simp
  then have "snd (scrape_search_hotel_urls env query limit) =
      [POST graphql_url, GET ?site] @ map (\<lambda>i. GET (?urls ! i)) (start_order env ?urls)"
    using location status first_page by (simp add: scrape_search_hotel_urls_def Let_def)
  then show ?thesis
    by (simp add: length_other_page_urls)
qed

text \<open>
  C3, as the code has it. For a first page with \<open>N > 0\<close> previews (a list length, below
  \<open>2 ^ 63\<close>) and a property count \<open>0 \<le> totalResults < 2 ^ 53\<close>, where the double
  quotient of the source is exact enough, the computed number of pages is
  \<^verbatim>\<open>ceil(totalResults / N)\<close>, replaced by \<open>max_pages\<close> whenever a limit other than \<open>0\<close> is
  given and smaller. When the run reaches the pagination and the next-page URL carries
  the offset token, \<open>max 1 totalPages\<close> pages are fetched in total: exactly \<open>max_pages\<close> of
  them for \<open>1 \<le> max_pages < ceil(totalResults / N)\<close>.
\<close>

theorem search_page_count:
  "(0 < page_size \<and> page_size < 2 ^ 63 \<and> 0 \<le> total_results \<and> total_results < 2 ^ 53
      \<and> max_pages \<noteq> Some 0
    \<longrightarrow> search_total_pages total_results page_size max_pages =
          Inr (clamp_pages (exact_ceil total_results page_size) max_pages))
   \<and> (bind (scrape_location_data (post_location env) query) py_first = Inr location
      \<and> first_page = get_page env 0 (''https://www.tripadvisor.com'' @ HOTELS_URL location)
      \<and> status_code first_page = 200
      \<and> parse_search_page (urljoin env) first_page = Inr results
      \<and> results \<noteq> [] \<and> int (length results) < 2 ^ 63
      \<and> bind (py_first (properties_counts (body first_page)))
           (\<lambda>matched. py_int_str (py_replace matched '','' [])) = Inr found
      \<and> 0 \<le> found \<and> found < 2 ^ 53
      \<and> limit \<noteq> Some 0
      \<and> urljoin env (''https://www.tripadvisor.com'' @ HOTELS_URL location)
           (next_page_href (body first_page)) = Inr next_page_url
      \<and> occurs (''oa'' @ py_str (int (length results))) next_page_url
    \<longrightarrow> fetches (snd (scrape_search_hotel_urls env query limit)) =
          nat (max 1 (clamp_pages (exact_ceil found (int (length results))) limit)))"
proof (intro conjI impI)
  assume "0 < page_size \<and> page_size < 2 ^ 63 \<and> 0 \<le> total_results \<and> total_results < 2 ^ 53
      \<and> max_pages \<noteq> Some 0"
  then show "search_total_pages total_results page_size max_pages =
      Inr (clamp_pages (exact_ceil total_results page_size) max_pages)"
    by (simp add: search_total_pages_exact clamp_pages_code)
qed (elim conjE, rule search_run_fetches)

theorem search_page_count_witness:
  "search_total_pages 47 10 None = Inr 5
   \<and> search_total_pages 47 10 (Some 3) = Inr 3
   \<and> fetches (snd (scrape_search_hotel_urls
         (search_site 200 [''7''] (Some ''/Hotels-g297604-oa2-Goa.html'')) ''Goa'' (Some 3))) = 3"
proof -
  let ?env = "search_site 200 [''7''] (Some ''/Hotels-g297604-oa2-Goa.html'')"
  let ?first = "get_page ?env 0 (''https://www.tripadvisor.com'' @ HOTELS_URL goa)"
  let ?results = "[\<lparr>url = ''https://www.tripadvisor.com/Hotel_Review-A'', name = ''A''\<rparr>,
                   \<lparr>url = ''https://www.tripadvisor.com/Hotel_Review-B'', name = ''B''\<rparr>]"
  let ?next = "''https://www.tripadvisor.com/Hotels-g297604-oa2-Goa.html''"
  have numbers: "(0::int) < 10 \<and> (10::int) < 2 ^ 63 \<and> (0::int) \<le> 47 \<and> (47::int) < 2 ^ 53"
    by simp
  have ceilings: "exact_ceil 47 10 = 5" "exact_ceil 7 (int (length ?results)) = 4"
    by code_simp+
  have unlimited: "search_total_pages 47 10 None = Inr 5"
    using search_page_count [where total_results = 47 and page_size = 10 and max_pages = None
        and env = ?env and query = "''Goa''" and location = goa and first_page = ?first
        and results = ?results and found = 7 and limit = "Some 3"
        and next_page_url = ?next] numbers ceilings
    by (simp add: clamp_pages_def)
  have limited: "search_total_pages 47 10 (Some 3) = Inr 3"
    using search_page_count [where total_results = 47 and page_size = 10 and max_pages = "Some 3"
        and env = ?env and query = "''Goa''" and location = goa and first_page = ?first
        and results = ?results and found = 7 and limit = "Some 3"
        and next_page_url = ?next] numbers ceilings
    by (simp add: clamp_pages_def)
  have location: "bind (scrape_location_data (post_location ?env) ''Goa'') py_first = Inr goa"
    by code_simp
  have status: "status_code ?first = 200"
    by (simp add: search_site_def)
  have parsed: "parse_search_page (urljoin ?env) ?first = Inr ?results"
    by code_simp
  have count: "bind (py_first (properties_counts (body ?first)))
      (\<lambda>matched. py_int_str (py_replace matched '','' [])) = Inr 7"
    by code_simp
  have joined: "urljoin ?env (''https://www.tripadvisor.com'' @ HOTELS_URL goa)
      (next_page_href (body ?first)) = Inr ?next"
    by code_simp
  have token: "occurs (''oa'' @ py_str (int (length ?results))) ?next"
    by code_simp
  have fetched: "fetches (snd (scrape_search_hotel_urls ?env ''Goa'' (Some 3))) = 3"
    using search_page_count [where total_results = 47 and page_size = 10 and max_pages = None
        and env = ?env and query = "''Goa''" and location = goa and first_page = ?first
        and results = ?results and found = 7 and limit = "Some 3"
        and next_page_url = ?next]
      location status parsed count joined token ceilings
    by (simp add: clamp_pages_def)
  show ?thesis
    using unlimited limited fetched by simp
qed

text \<open>
  The claim as stated fails for the limit \<open>0\<close>, which is given and smaller but does not
  replace the five pages, and for a property count beyond \<open>2 ^ 53\<close>, where the double
  quotient of the source is rounded below the exact ceiling.
\<close>

theorem search_page_count_counterexample:
  "search_total_pages 47 10 (Some 0) = Inr 5
   \<and> search_total_pages 9007199254740993 1 None = Inr 9007199254740992
   \<and> exact_ceil 9007199254740993 1 = 9007199254740993"
  by code_simp

section \<open>The number of review pages\<close>

text \<open>
  C5, as the code has it. For a first hotel page that declares
  \<open>0 \<le> reviewCount < 2 ^ 53\<close> reviews, where the double quotient of the source is exact
  enough, the number of review pages is \<^verbatim>\<open>ceil(reviewCount / 10)\<close>, replaced by
  \<open>max_review_pages\<close> whenever a limit other than \<open>0\<close> is given and smaller. The requests
  of the run are the first page and then the \<open>max (totalReviewPages - 1) 0\<close> offset URLs:
  two follow-up fetches for \<open>reviewCount = 25\<close>, which makes three pages.
\<close>

theorem review_page_count:
  "(0 \<le> total_reviews \<and> total_reviews < 2 ^ 53 \<and> max_review_pages \<noteq> Some 0
    \<longrightarrow> review_total_pages total_reviews max_review_pages =
          Inr (clamp_pages (exact_ceil total_reviews 10) max_review_pages))
   \<and> (status_code (get 0 hotel_url) = 200
      \<and> parse_hotel_page (get 0 hotel_url) = Inr hotel
      \<and> total_reviews_of hotel = Inr declared
      \<and> 0 \<le> declared \<and> declared < 2 ^ 53
      \<and> limit \<noteq> Some 0
    \<longrightarrow> snd (scrape_hotel_reviews get hotel_url limit) =
          GET hotel_url
            # map GET (review_urls hotel_url (clamp_pages (exact_ceil declared 10) limit))
        \<and> length (review_urls hotel_url (clamp_pages (exact_ceil declared 10) limit)) =
            nat (clamp_pages (exact_ceil declared 10) limit - 1))"
proof (intro conjI impI)
  assume "0 \<le> total_reviews \<and> total_reviews < 2 ^ 53 \<and> max_review_pages \<noteq> Some 0"
  then show "review_total_pages total_reviews max_review_pages =
      Inr (clamp_pages (exact_ceil total_reviews 10) max_review_pages)"
    by (simp add: review_total_pages_exact clamp_pages_code)
next
  assume run: "status_code (get 0 hotel_url) = 200
      \<and> parse_hotel_page (get 0 hotel_url) = Inr hotel
      \<and> total_reviews_of hotel = Inr declared
      \<and> 0 \<le> declared \<and> declared < 2 ^ 53
      \<and> limit \<noteq> Some 0"
  then have "review_total_pages declared limit =
      Inr (clamp_pages (exact_ceil declared 10) limit)"
    by (simp add: review_total_pages_exact clamp_pages_code)
  then show "snd (scrape_hotel_reviews get hotel_url limit) =
      GET hotel_url
        # map GET (review_urls hotel_url (clamp_pages (exact_ceil declared 10) limit))"
    using run scrape_hotel_reviews_run [of get hotel_url hotel declared limit]
    by simp
next
  show "length (review_urls hotel_url (clamp_pages (exact_ceil declared 10) limit)) =
      nat (clamp_pages (exact_ceil declared 10) limit - 1)"
    by (rule length_review_urls)
qed

theorem review_page_count_witness:
  "review_total_pages 25 None = Inr 3
   \<and> review_total_pages 25 (Some 2) = Inr 2
   \<and> snd (scrape_hotel_reviews (hotel_site 200 25 [full_review]) hotel_url_1926 None) =
       [GET hotel_url_1926,
        GET ''https://www.tripadvisor.com/Hotel_Review-g190327-d264936-Reviews-or10-1926_Hotel_Spa-Sliema_Island_of_Malta.html'',
        GET ''https://www.tripadvisor.com/Hotel_Review-g190327-d264936-Reviews-or20-1926_Hotel_Spa-Sliema_Island_of_Malta.html'']"
proof -
  let ?get = "hotel_site 200 25 [full_review]"
  obtain hotel where parsed: "parse_hotel_page (?get 0 hotel_url_1926) = Inr hotel"
    and declared: "total_reviews_of hotel = Inr 25"
  proof
    show "parse_hotel_page (?get 0 hotel_url_1926) =
        Inr \<lparr>basic_data = JObj [(''name'', JStr ''Hotel''),
                 (''aggregateRating'',
                  JObj [(''ratingValue'', JStr ''4.5''), (''reviewCount'', JInt 25)])],
             description = None, featues = [''Pool''],
             reviews = [\<lparr>title = Some ''Great'', review_text = ''Nice stay'',
                          rate = Some ''4'', tripDate = ''May 2024''\<rparr>]\<rparr>"
      by code_simp
    show "total_reviews_of
        \<lparr>basic_data = JObj [(''name'', JStr ''Hotel''),
                 (''aggregateRating'',
                  JObj [(''ratingValue'', JStr ''4.5''), (''reviewCount'', JInt 25)])],
             description = None, featues = [''Pool''],
             reviews = [\<lparr>title = Some ''Great'', review_text = ''Nice stay'',
                          rate = Some ''4'', tripDate = ''May 2024''\<rparr>]\<rparr> = Inr 25"
      by code_simp
  qed
  have status: "status_code (?get 0 hotel_url_1926) = 200"
    by (simp add: hotel_site_def)
  have ceiling: "exact_ceil 25 10 = 3"
    by code_simp
  have urls: "review_urls hotel_url_1926 3 =
      [''https://www.tripadvisor.com/Hotel_Review-g190327-d264936-Reviews-or10-1926_Hotel_Spa-Sliema_Island_of_Malta.html'',
       ''https://www.tripadvisor.com/Hotel_Review-g190327-d264936-Reviews-or20-1926_Hotel_Spa-Sliema_Island_of_Malta.html'']"
    by code_simp
  have unlimited: "review_total_pages 25 None = Inr 3
      \<and> snd (scrape_hotel_reviews ?get hotel_url_1926 None) =
          GET hotel_url_1926 # map GET (review_urls hotel_url_1926 3)"
    using review_page_count [where total_reviews = 25 and max_review_pages = None
        and get = ?get and hotel_url = hotel_url_1926 and hotel = hotel and declared = 25
        and limit = None] parsed declared status ceiling
    by (simp add: clamp_pages_def)
  have limited: "review_total_pages 25 (Some 2) = Inr 2"
    using review_page_count [where total_reviews = 25 and max_review_pages = "Some 2"
        and get = ?get and hotel_url = hotel_url_1926 and hotel = hotel and declared = 25
        and limit = None] ceiling
    by (simp add: clamp_pages_def)
  show ?thesis
    using unlimited limited urls by simp
qed

text \<open>
  The claim as stated fails for the limit \<open>0\<close>, which is given and smaller but leaves the
  three pages, and for a review count beyond \<open>2 ^ 53\<close>, where the double quotient of the
  source is rounded below the exact ceiling.
\<close>

theorem review_page_count_counterexample:
  "review_total_pages 25 (Some 0) = Inr 3
   \<and> review_total_pages 90071992547409921 None = Inr 9007199254740992
   \<and> exact_ceil 90071992547409921 10 = 9007199254740993"
  by code_simp

section \<open>The number of merged reviews\<close>

lemma parse_reviews_length:
  "parse_reviews nodes collected = Inr rs \<Longrightarrow> length rs = length collected + length nodes"
proof (induction nodes arbitrary: collected)
  case Nil
  then show ?case by simp
next
  case (Cons node nodes)
  then show ?case
    by (cases "parse_review node") auto
qed

lemma parse_hotel_page_length:
  assumes "parse_hotel_page response = Inr data"
  shows "length (reviews data) = length (review_nodes (body response))"
proof -
  obtain rs where "parse_reviews (review_nodes (body response)) [] = Inr rs"
    and "reviews data = rs"
    using assms
    by (auto simp: parse_hotel_page_def bind_def split: option.splits sum.splits)
  then show ?thesis
    using parse_reviews_length by fastforce
qed

lemma extend_reviews_length:
  "extend_reviews hotel responses = Inr final \<Longrightarrow>
     length (reviews final) =
       length (reviews hotel) + sum_list (map (\<lambda>r. length (review_nodes (body r))) responses)"
proof (induction responses arbitrary: hotel)
  case Nil
  then show ?case by simp
next
  case (Cons response responses)
  then obtain data where data: "parse_hotel_page response = Inr data"
    and rest: "extend_reviews (hotel\<lparr>reviews := reviews hotel @ reviews data\<rparr>) responses = Inr final"
    by (cases "parse_hotel_page response") auto
  show ?case
    using Cons.IH [OF rest] parse_hotel_page_length [OF data] by simp
qed

lemma sum_list_le_times:
  "list_all (\<lambda>x. f x \<le> (k::nat)) xs \<Longrightarrow> sum_list (map f xs) \<le> k * length xs"
  by (induction xs) auto

lemma review_total_pages_le:
  assumes "0 \<le> total_reviews" "total_reviews < 2 ^ 53"
  shows "\<exists>pages. review_total_pages total_reviews max_review_pages = Inr pages
           \<and> pages \<le> exact_ceil total_reviews 10"
  using assms
  by (cases max_review_pages) (simp_all add: review_total_pages_exact)

lemma ten_exact_ceil: "10 * exact_ceil n 10 \<le> n + 9"
  using exact_ceil_bounds(1) [of 10 n] by simp

text \<open>
  C7, as the code has it. The merged reviews are all review containers of the fetched
  pages, and at most \<open>max 1 (ceil(reviewCount / 10))\<close> pages are fetched: so when every
  page shows at most ten containers (the page size the source assumes) and
  \<open>0 \<le> reviewCount < 2 ^ 53\<close>, the finished record has at most
  \<open>10 * max 1 (ceil(reviewCount / 10))\<close> reviews, which is at most \<open>reviewCount + 9\<close> for a
  count of at least one. Nothing bounds the reviews by \<open>reviewCount\<close> itself.
\<close>

theorem merged_reviews_bound:
  assumes run: "scrape_hotel_reviews get hotel_url max_review_pages = (Inr final, sent)"
    and first: "parse_hotel_page (get 0 hotel_url) = Inr hotel"
    and declared: "total_reviews_of hotel = Inr review_count"
    and range: "0 \<le> review_count" "review_count < 2 ^ 53"
    and per_page: "\<forall>i u. length (review_nodes (body (get i u))) \<le> 10"
  shows "fetches sent \<le> nat (max 1 (exact_ceil review_count 10))
     \<and> length (reviews final) \<le> 10 * nat (max 1 (exact_ceil review_count 10))
     \<and> (1 \<le> review_count \<longrightarrow> int (length (reviews final)) \<le> review_count + 9)"
proof -
  obtain pages where pages: "review_total_pages review_count max_review_pages = Inr pages"
    and le: "pages \<le> exact_ceil review_count 10"
    using review_total_pages_le [OF range] by blast
  let ?urls = "review_urls hotel_url pages"
  have status: "status_code (get 0 hotel_url) = 200"
    using run by (auto simp: scrape_hotel_reviews_def Let_def split: if_splits)
  have result: "extend_reviews hotel (gather get ?urls) = Inr final"
    and sent: "sent = GET hotel_url # map GET ?urls"
    using run status first declared pages
      scrape_hotel_reviews_run [of get hotel_url hotel review_count max_review_pages pages]
    by simp_all
  have fetched: "fetches sent = Suc (nat (pages - 1))"
    using sent by (simp add: length_review_urls)
  have "length (review_nodes (body (get 0 hotel_url))) \<le> 10"
    using per_page by blast
  then have base: "length (reviews hotel) \<le> 10"
    using parse_hotel_page_length [OF first] by simp
  have "list_all (\<lambda>r. length (review_nodes (body r)) \<le> 10) (gather get ?urls)"
    using per_page by (simp add: gather_def list_all_iff)
  then have "sum_list (map (\<lambda>r. length (review_nodes (body r))) (gather get ?urls))
      \<le> 10 * length (gather get ?urls)"
    by (rule sum_list_le_times)
  then have merged: "length (reviews final) \<le> 10 * Suc (nat (pages - 1))"
    using extend_reviews_length [OF result] base
    by (simp add: gather_def length_review_urls)
  have bound: "Suc (nat (pages - 1)) \<le> nat (max 1 (exact_ceil review_count 10))"
    using le by simp
  have many: "length (reviews final) \<le> 10 * nat (max 1 (exact_ceil review_count 10))"
    using merged bound by simp
  have "int (length (reviews final)) \<le> review_count + 9" if "1 \<le> review_count"
  proof -
    have "1 \<le> exact_ceil review_count 10"
      using that exact_ceil_bounds(2) [of 10 review_count] by simp
    then have "int (10 * nat (max 1 (exact_ceil review_count 10))) = 10 * exact_ceil review_count 10"
      by simp
    then show ?thesis
      using many ten_exact_ceil [of review_count] by linarith
  qed
  then show ?thesis
    using fetched bound many by simp
qed

theorem merged_reviews_bound_witness:
  "fetches (snd (scrape_hotel_reviews (hotel_site 200 25 [full_review]) hotel_url_1926 None)) \<le> 3
   \<and> (case fst (scrape_hotel_reviews (hotel_site 200 25 [full_review]) hotel_url_1926 None) of
         Inl e \<Rightarrow> False
       | Inr final \<Rightarrow> length (reviews final) \<le> 30 \<and> int (length (reviews final)) \<le> 25 + 9)"
proof -
  let ?get = "hotel_site 200 25 [full_review]"
  have "\<not> isl (fst (scrape_hotel_reviews ?get hotel_url_1926 None))"
    by code_simp
  then obtain final sent where run:
    "scrape_hotel_reviews ?get hotel_url_1926 None = (Inr final, sent)"
    by (cases "scrape_hotel_reviews ?get hotel_url_1926 None";
        cases "fst (scrape_hotel_reviews ?get hotel_url_1926 None)") auto
  have "\<not> isl (parse_hotel_page (?get 0 hotel_url_1926))"
    by code_simp
  then obtain hotel where first: "parse_hotel_page (?get 0 hotel_url_1926) = Inr hotel"
    by (cases "parse_hotel_page (?get 0 hotel_url_1926)") auto
  have "bind (parse_hotel_page (?get 0 hotel_url_1926)) total_reviews_of = Inr 25"
    by code_simp
  then have declared: "total_reviews_of hotel = Inr 25"
    using first by simp
  have per_page: "\<forall>i u. length (review_nodes (body (?get i u))) \<le> 10"
    by (simp add: hotel_site_def hotel_page_of_def)
  have ceiling: "exact_ceil 25 10 = 3"
    by code_simp
  show ?thesis
    using merged_reviews_bound [OF run first declared _ _ per_page] run ceiling
    by simp
qed

text \<open>
  The claim as stated fails: a first page that declares one review and shows two
  containers gives a finished record with two reviews.
\<close>

theorem merged_reviews_counterexample:
  "(case fst (scrape_hotel_reviews (hotel_site 200 1 [full_review, full_review])
                hotel_url_1926 None) of
      Inl e \<Rightarrow> None
    | Inr final \<Rightarrow> Some (total_reviews_of final, length (reviews final)))
   = Some (Inr 1, 2)"
  by code_simp

section \<open>A page limit of zero\<close>





end
